theory Spec2Isabelle
  imports Main "HOL-Library.Word"
begin

unbundle bit_operations_syntax

section \<open>Data model\<close>

text \<open>
  The DA syncer of scroll-geth, package \<^verbatim>\<open>da_syncer\<close>: the calldata-and-blob source
  (\<^verbatim>\<open>CalldataBlobSource\<close>), the DA entries (\<^verbatim>\<open>da.go\<close>), the queue (\<^verbatim>\<open>da_queue.go\<close>)
  and the later version-1 decoder (\<^verbatim>\<open>da/commitV1.go\<close>).

  Go's \<^verbatim>\<open>uint64\<close>, \<^verbatim>\<open>uint16\<close> and \<^verbatim>\<open>uint8\<close> are words, so \<open>+\<close> and \<open>-\<close> wrap as
  they do in Go. A byte slice is a list; its capacity is taken to be its length.
  \<^verbatim>\<open>common.Hash\<close> is a 32-byte value.
\<close>

type_synonym uint8 = "8 word"
type_synonym uint16 = "16 word"
type_synonym uint64 = "64 word"
type_synonym bytes = "uint8 list"
type_synonym hash = "256 word"
type_synonym blob = bytes
type_synonym commitment = bytes

text \<open>\<^verbatim>\<open>types.Log\<close>: the fields the syncer reads.\<close>

record Log =
  Topics :: "hash list"
  BlockNumber :: uint64
  TxHash :: hash

text \<open>
  \<^verbatim>\<open>codecv0.DABlock\<close> and \<^verbatim>\<open>codecv0.DAChunkRawTx\<close> of the da-codec library; the
  codecs of versions 1 and 2 decode into the same chunk type.
\<close>

record DABlock =
  NumTransactions :: uint16
  NumL1Messages :: uint16

record DAChunkRawTx =
  Blocks :: "DABlock list"
  Transactions :: "bytes list list"

text \<open>The values \<^verbatim>\<open>method.Inputs.Unpack\<close> returns (\<^verbatim>\<open>[]interface{}\<close>).\<close>

datatype abi_value = AbiUint8 uint8 | AbiBytes bytes | AbiBytesList "bytes list"

record Method =
  Name :: string
  ID :: bytes

record commitBatchArgs =
  Version :: uint8
  ParentBatchHeader :: bytes
  Chunks :: "bytes list"
  SkippedL1MessageBitmap :: bytes

record commitBatchWithBlobProofArgs =
  bp_Version :: uint8
  bp_ParentBatchHeader :: bytes
  bp_Chunks :: "bytes list"
  bp_SkippedL1MessageBitmap :: bytes
  bp_BlobDataProof :: bytes

subsection \<open>Errors and panics\<close>

text \<open>
  Every \<^verbatim>\<open>fmt.Errorf\<close> of the source is a constructor; one that wraps an error
  (\<^verbatim>\<open>%w\<close>, \<^verbatim>\<open>%v\<close>) carries it. \<open>Other\<close> is an error made by a collaborator.
  \<open>SourceExhausted\<close> is the sentinel \<^verbatim>\<open>sourceExhaustedErr\<close>.
\<close>

datatype error =
    Other string
  | SourceExhausted
  | CannotGetL1Height error
  | CannotGetEvents uint64 error
  | FailedToUnpackCommitLog error
  | FailedToUnpackRevertLog error
  | FailedToUnpackFinalizedLog error
  | FailedToGetCommitBatchDa uint64 error
  | UnknownEvent hash hash
  | TxDataTooShort nat nat
  | FailedToGetMethodById bytes error
  | FailedToUnpackTxData bytes error
  | FailedToDecodeCalldata "abi_value list" error
  | UnknownCodecVersion uint8
  | FailedToUnpackChunks uint64 error
  | FailedToFetchBlobHash error
  | FailedToGetHeaderByNumber error
  | FailedToFetchBlob error
  | UnexpectedNilBlob uint64 hash
  | FailedToCreateBlobCommitment
  | BlobVersionedHashMismatch hash hash
  | FailedToDecodeTxsFromBlob error
  | FailedToDecodeBitmap uint64 error
  | FailedToReadL1Message uint64

text \<open>
  A Go run-time panic is not an error value: no \<^verbatim>\<open>if err != nil\<close> sees it and no
  caller wraps it. \<open>IndexOutOfRange i n\<close> is \<^verbatim>\<open>index out of range [i] with length n\<close>,
  \<open>SliceBoundsOutOfRange j n\<close> is \<^verbatim>\<open>slice bounds out of range [:j] with capacity n\<close>.
\<close>

datatype panic = IndexOutOfRange nat nat | SliceBoundsOutOfRange nat nat

datatype 'a result = Ok 'a | Err error | Panic panic

subsection \<open>DA entries\<close>

text \<open>
  \<^verbatim>\<open>DAType\<close> and the entry structs of \<^verbatim>\<open>da.go\<close>. The commit structs of all versions
  have the same fields, so they are one record, told apart by \<open>cb_DaType\<close>. The
  \<^verbatim>\<open>da.go\<close> among the sources is of another revision than the decoder: its third field
  is \<^verbatim>\<open>ParentBatchHeader *codecv0.DABatch\<close>, where the decoder passes the \<^verbatim>\<open>uint64\<close>
  \<^verbatim>\<open>parentTotalL1MessagePopped\<close> (and the literal 0 for the genesis batch); the record
  follows the decoder's calls. \<open>CommitBatchV2\<close> is the tag of \<^verbatim>\<open>NewCommitBatchDaV2\<close>,
  which the decoder calls and \<^verbatim>\<open>da.go\<close> does not hold.
\<close>

datatype DAType = CommitBatchV0 | CommitBatchV1 | CommitBatchV2 | RevertBatch | FinalizeBatch

record 'm CommitBatchDa =
  cb_DaType :: DAType
  cb_Version :: uint8
  cb_BatchIndex :: uint64
  cb_ParentTotalL1MessagePopped :: uint64
  cb_SkippedL1MessageBitmap :: bytes
  cb_Chunks :: "DAChunkRawTx list"
  cb_L1Txs :: "'m list"
  cb_L1BlockNumber :: uint64

record RevertBatchDA =
  rv_DaType :: DAType
  rv_BatchIndex :: uint64
  rv_L1BlockNumber :: uint64

record FinalizeBatchDA =
  fn_DaType :: DAType
  fn_BatchIndex :: uint64
  fn_L1BlockNumber :: uint64

datatype 'm DAEntry =
    Commit "'m CommitBatchDa"
  | Revert RevertBatchDA
  | Finalize FinalizeBatchDA

type_synonym 'm DA = "'m DAEntry list"

definition NewCommitBatchDaV0 ::
  "uint8 \<Rightarrow> uint64 \<Rightarrow> uint64 \<Rightarrow> bytes \<Rightarrow> DAChunkRawTx list \<Rightarrow> 'm list \<Rightarrow> uint64 \<Rightarrow> 'm DAEntry" where
  "NewCommitBatchDaV0 version batchIndex parentTotal skippedL1MessageBitmap chunks l1Txs l1BlockNumber =
     Commit \<lparr>cb_DaType = CommitBatchV0, cb_Version = version, cb_BatchIndex = batchIndex,
       cb_ParentTotalL1MessagePopped = parentTotal,
       cb_SkippedL1MessageBitmap = skippedL1MessageBitmap, cb_Chunks = chunks,
       cb_L1Txs = l1Txs, cb_L1BlockNumber = l1BlockNumber\<rparr>"

definition NewCommitBatchDaV1 ::
  "uint8 \<Rightarrow> uint64 \<Rightarrow> uint64 \<Rightarrow> bytes \<Rightarrow> DAChunkRawTx list \<Rightarrow> 'm list \<Rightarrow> uint64 \<Rightarrow> 'm DAEntry" where
  "NewCommitBatchDaV1 version batchIndex parentTotal skippedL1MessageBitmap chunks l1Txs l1BlockNumber =
     Commit \<lparr>cb_DaType = CommitBatchV1, cb_Version = version, cb_BatchIndex = batchIndex,
       cb_ParentTotalL1MessagePopped = parentTotal,
       cb_SkippedL1MessageBitmap = skippedL1MessageBitmap, cb_Chunks = chunks,
       cb_L1Txs = l1Txs, cb_L1BlockNumber = l1BlockNumber\<rparr>"

text \<open>
  Modelled from the spec: \<^verbatim>\<open>NewCommitBatchDaV2\<close> is called by \<^verbatim>\<open>decodeDAV2\<close> and its
  code is missing. The spec's BatchCommit is one record for every codec version, so it
  is the constructor of version 1 with its own tag.
\<close>

definition NewCommitBatchDaV2 ::
  "uint8 \<Rightarrow> uint64 \<Rightarrow> uint64 \<Rightarrow> bytes \<Rightarrow> DAChunkRawTx list \<Rightarrow> 'm list \<Rightarrow> uint64 \<Rightarrow> 'm DAEntry" where
  "NewCommitBatchDaV2 version batchIndex parentTotal skippedL1MessageBitmap chunks l1Txs l1BlockNumber =
     Commit \<lparr>cb_DaType = CommitBatchV2, cb_Version = version, cb_BatchIndex = batchIndex,
       cb_ParentTotalL1MessagePopped = parentTotal,
       cb_SkippedL1MessageBitmap = skippedL1MessageBitmap, cb_Chunks = chunks,
       cb_L1Txs = l1Txs, cb_L1BlockNumber = l1BlockNumber\<rparr>"

text \<open>
  \<^verbatim>\<open>NewRevertBatchDA\<close> and \<^verbatim>\<open>NewFinalizeBatchDA\<close> take the batch index only; the
  struct literal leaves \<^verbatim>\<open>L1BlockNumber\<close> out, so it holds Go's zero value.
\<close>

definition NewRevertBatchDA :: "uint64 \<Rightarrow> 'm DAEntry" where
  "NewRevertBatchDA batchIndex =
     Revert \<lparr>rv_DaType = RevertBatch, rv_BatchIndex = batchIndex, rv_L1BlockNumber = 0\<rparr>"

definition NewFinalizeBatchDA :: "uint64 \<Rightarrow> 'm DAEntry" where
  "NewFinalizeBatchDA batchIndex =
     Finalize \<lparr>fn_DaType = FinalizeBatch, fn_BatchIndex = batchIndex, fn_L1BlockNumber = 0\<rparr>"

text \<open>The two methods of the \<^verbatim>\<open>DAEntry\<close> interface.\<close>

fun DAType_of :: "'m DAEntry \<Rightarrow> DAType" where
  "DAType_of (Commit f) = cb_DaType f"
| "DAType_of (Revert f) = rv_DaType f"
| "DAType_of (Finalize f) = fn_DaType f"

fun GetL1BlockNumber :: "'m DAEntry \<Rightarrow> uint64" where
  "GetL1BlockNumber (Commit f) = cb_L1BlockNumber f"
| "GetL1BlockNumber (Revert f) = rv_L1BlockNumber f"
| "GetL1BlockNumber (Finalize f) = fn_L1BlockNumber f"

section \<open>Collaborators\<close>

text \<open>
  The source reaches its collaborators through the fields of \<^verbatim>\<open>CalldataBlobSource\<close>
  (\<^verbatim>\<open>l1Client\<close>, \<^verbatim>\<open>blobClient\<close>, \<^verbatim>\<open>scrollChainABI\<close>, \<^verbatim>\<open>db\<close>) and through the
  packages \<^verbatim>\<open>codecv0\<close>, \<^verbatim>\<open>codecv1\<close>, \<^verbatim>\<open>codecv2\<close>, \<^verbatim>\<open>encoding\<close> and \<^verbatim>\<open>kzg4844\<close>.
  Their code is outside the package: each is a parameter, a function from the call's
  arguments to what the call returns, and every theorem holds for all of them. Their
  answers change from one call of \<^verbatim>\<open>NextData\<close> to the next (the finalized height
  grows), so they are kept apart from the cursor, in a record \<open>env\<close>.
\<close>

record L1Client =
  getFinalizedBlockNumber :: "error + uint64"
  fetchRollupEventsInRange :: "uint64 \<Rightarrow> uint64 \<Rightarrow> error + Log list"
  fetchTxData :: "Log \<Rightarrow> error + bytes"
  fetchTxBlobHash :: "Log \<Rightarrow> error + hash"
  GetHeaderByNumber :: "uint64 \<Rightarrow> error + uint64"

text \<open>
  \<^verbatim>\<open>GetHeaderByNumber\<close> stands for the header's \<^verbatim>\<open>Time\<close>, the one field read.
  \<^verbatim>\<open>GetBlobByVersionedHashAndBlockTime\<close> may return a nil blob with a nil error.
\<close>

record BlobClient =
  GetBlobByVersionedHash :: "hash \<Rightarrow> error + blob"
  GetBlobByVersionedHashAndBlockTime :: "hash \<Rightarrow> uint64 \<Rightarrow> error + blob option"

text \<open>
  \<^verbatim>\<open>UnpackLog\<close> with the event's name, read through \<^verbatim>\<open>event.BatchIndex.Uint64()\<close>;
  \<^verbatim>\<open>MethodById\<close>; \<^verbatim>\<open>method.Inputs.Unpack\<close>; \<^verbatim>\<open>method.Inputs.Copy\<close> into each of the
  two argument structs.
\<close>

record ABI =
  UnpackLog :: "string \<Rightarrow> Log \<Rightarrow> error + uint64"
  MethodById :: "bytes \<Rightarrow> error + Method"
  Unpack :: "Method \<Rightarrow> bytes \<Rightarrow> error + abi_value list"
  Copy_commitBatchArgs :: "Method \<Rightarrow> abi_value list \<Rightarrow> error + commitBatchArgs"
  Copy_commitBatchWithBlobProofArgs ::
    "Method \<Rightarrow> abi_value list \<Rightarrow> error + commitBatchWithBlobProofArgs"

text \<open>
  The codec library. \<^verbatim>\<open>DecodeTxsFromBlob\<close> fills the chunks' transactions in place
  and returns an error; here it returns the filled chunks. A decoded bitmap is a list
  of big integers.
\<close>

type_synonym bitmap = "nat list"

record Codec =
  codecv0_DecodeDAChunksRawTx :: "bytes list \<Rightarrow> error + DAChunkRawTx list"
  codecv1_DecodeDAChunksRawTx :: "bytes list \<Rightarrow> error + DAChunkRawTx list"
  codecv2_DecodeDAChunksRawTx :: "bytes list \<Rightarrow> error + DAChunkRawTx list"
  codecv1_DecodeTxsFromBlob :: "blob \<Rightarrow> DAChunkRawTx list \<Rightarrow> error + DAChunkRawTx list"
  codecv2_DecodeTxsFromBlob :: "blob \<Rightarrow> DAChunkRawTx list \<Rightarrow> error + DAChunkRawTx list"
  DecodeBitmap :: "bytes \<Rightarrow> nat \<Rightarrow> error + bitmap"
  IsL1MessageSkipped :: "bitmap \<Rightarrow> uint64 \<Rightarrow> bool"

record Kzg =
  BlobToCommitment :: "blob \<Rightarrow> error + commitment"
  CalcBlobHashV1 :: "commitment \<Rightarrow> hash"

record 'm env =
  l1Client :: L1Client
  blobClient :: BlobClient
  scrollChainABI :: ABI
  codec :: Codec
  kzg :: Kzg
  ReadL1Message :: "uint64 \<Rightarrow> 'm option"

text \<open>
  What a function did to its collaborators is part of what it returns: the list of the
  calls it made, in order. A call is listed when it can fail or reads outside state;
  \<^verbatim>\<open>CalcBlobHashV1\<close> and \<^verbatim>\<open>IsL1MessageSkipped\<close> only compute.
\<close>

datatype call =
    Call_getFinalizedBlockNumber
  | Call_fetchRollupEventsInRange uint64 uint64
  | Call_UnpackLog string Log
  | Call_fetchTxData Log
  | Call_MethodById bytes
  | Call_Unpack bytes
  | Call_Copy "abi_value list"
  | Call_DecodeDAChunksRawTx "bytes list"
  | Call_fetchTxBlobHash Log
  | Call_GetHeaderByNumber uint64
  | Call_GetBlobByVersionedHash hash
  | Call_GetBlobByVersionedHashAndBlockTime hash uint64
  | Call_BlobToCommitment blob
  | Call_DecodeTxsFromBlob blob
  | Call_DecodeBitmap bytes nat
  | Call_ReadL1Message uint64
  | Call_NewCommitBatchDAV0WithChunks

text \<open>\<open>after cs r\<close>: the calls \<open>cs\<close> were made, then those of \<open>r\<close>.\<close>

definition after :: "call list \<Rightarrow> 'a \<times> call list \<Rightarrow> 'a \<times> call list" where
  "after cs r = (fst r, cs @ snd r)"

section \<open>The protocol decoder\<close>

text \<open>
  \<^verbatim>\<open>binary.BigEndian.Uint64\<close> on a slice of eight bytes, and
  \<^verbatim>\<open>getBatchTotalL1MessagePopped\<close>: the slice expression \<^verbatim>\<open>data[17:25]\<close> panics when
  the slice is shorter than 25 bytes.
\<close>

definition BigEndian_Uint64 :: "bytes \<Rightarrow> uint64" where
  "BigEndian_Uint64 b =
     (ucast (b ! 7) OR push_bit 8 (ucast (b ! 6)) OR push_bit 16 (ucast (b ! 5))
      OR push_bit 24 (ucast (b ! 4)) OR push_bit 32 (ucast (b ! 3))
      OR push_bit 40 (ucast (b ! 2)) OR push_bit 48 (ucast (b ! 1))
      OR push_bit 56 (ucast (b ! 0)))"

definition getBatchTotalL1MessagePopped :: "bytes \<Rightarrow> uint64 result" where
  "getBatchTotalL1MessagePopped data =
     (if 25 \<le> length data then Ok (BigEndian_Uint64 (take 8 (drop 17 data)))
      else Panic (SliceBoundsOutOfRange 25 (length data)))"

text \<open>
  The sum of \<^verbatim>\<open>int(block.NumL1Messages)\<close> over all blocks of all chunks. Go's \<^verbatim>\<open>int\<close>
  has 64 bits and each summand is below \<open>2 ^ 16\<close>, so the sum is a natural number.
\<close>

definition totalL1MessagePopped :: "DAChunkRawTx list \<Rightarrow> nat" where
  "totalL1MessagePopped chunks =
     sum_list (map (\<lambda>chunk. sum_list (map (\<lambda>block. unat (NumL1Messages block)) (Blocks chunk))) chunks)"

text \<open>
  The message loop of \<^verbatim>\<open>decodeDAV0\<close>
  (\<^verbatim>\<open>for index := 0; index < totalL1MessagePopped; index++\<close>): the first argument
  after the bitmap's is the number of iterations left. The bit of the current slot is
  tested once; a set bit uses the iteration up.
\<close>

fun l1MessagesV0 ::
  "'m env \<Rightarrow> bitmap \<Rightarrow> uint64 \<Rightarrow> nat \<Rightarrow> uint64 \<Rightarrow> 'm list \<Rightarrow> 'm list result \<times> call list" where
  "l1MessagesV0 env skippedBitmap parent 0 currentIndex l1Txs = (Ok l1Txs, [])"
| "l1MessagesV0 env skippedBitmap parent (Suc n) currentIndex l1Txs =
     (if IsL1MessageSkipped (codec env) skippedBitmap (currentIndex - parent)
      then l1MessagesV0 env skippedBitmap parent n (currentIndex + 1) l1Txs
      else (case ReadL1Message env currentIndex of
              None \<Rightarrow> (Err (FailedToReadL1Message currentIndex), [Call_ReadL1Message currentIndex])
            | Some l1Tx \<Rightarrow>
                after [Call_ReadL1Message currentIndex]
                  (l1MessagesV0 env skippedBitmap parent n (currentIndex + 1) (l1Txs @ [l1Tx]))))"

text \<open>
  The inner loop of \<^verbatim>\<open>decodeDAV1\<close> and \<^verbatim>\<open>decodeDAV2\<close>
  (\<^verbatim>\<open>for encoding.IsL1MessageSkipped(...) { currentIndex++ }\<close>). Nothing bounds it: it
  runs until a bit is clear, and \<open>None\<close> is the run that never ends.
\<close>

partial_function (option) skipSkipped :: "(uint64 \<Rightarrow> bool) \<Rightarrow> uint64 \<Rightarrow> uint64 \<Rightarrow> uint64 option" where
  "skipSkipped skipped parent currentIndex =
     (if skipped (currentIndex - parent) then skipSkipped skipped parent (currentIndex + 1)
      else Some currentIndex)"

text \<open>
  The message loop of \<^verbatim>\<open>decodeDAV1\<close> and \<^verbatim>\<open>decodeDAV2\<close>: every iteration first
  runs past all set bits and then reads a message.
\<close>

fun l1MessagesV1 ::
  "'m env \<Rightarrow> bitmap \<Rightarrow> uint64 \<Rightarrow> nat \<Rightarrow> uint64 \<Rightarrow> 'm list \<Rightarrow> ('m list result \<times> call list) option" where
  "l1MessagesV1 env skippedBitmap parent 0 currentIndex l1Txs = Some (Ok l1Txs, [])"
| "l1MessagesV1 env skippedBitmap parent (Suc n) currentIndex l1Txs =
     (case skipSkipped (IsL1MessageSkipped (codec env) skippedBitmap) parent currentIndex of
        None \<Rightarrow> None
      | Some current \<Rightarrow>
          (case ReadL1Message env current of
             None \<Rightarrow> Some (Err (FailedToReadL1Message current), [Call_ReadL1Message current])
           | Some l1Tx \<Rightarrow>
               map_option (after [Call_ReadL1Message current])
                 (l1MessagesV1 env skippedBitmap parent n (current + 1) (l1Txs @ [l1Tx]))))"

text \<open>
  The claim about the attached messages, in the spec's words: the global indices of
  the window \<open>[parent, parent + totalSlots)\<close> whose bit is clear, in increasing
  order, slot \<open>i\<close> of the bitmap being the index \<open>parent + i\<close>.
\<close>

definition nonSkippedIndices :: "(uint64 \<Rightarrow> bool) \<Rightarrow> uint64 \<Rightarrow> nat \<Rightarrow> uint64 list" where
  "nonSkippedIndices skipped parent totalSlots =
     map (\<lambda>i. parent + of_nat i) (filter (\<lambda>i. \<not> skipped (of_nat i)) [0..<totalSlots])"

text \<open>
  The end of all three decoders, from \<^verbatim>\<open>getBatchTotalL1MessagePopped\<close> on: the parent
  header's field, the slot count, the bitmap, the message loop, the entry. \<open>loop\<close> is
  the message loop and \<open>new\<close> the entry's constructor.
\<close>

definition reconcile ::
  "'m env \<Rightarrow> (bitmap \<Rightarrow> uint64 \<Rightarrow> nat \<Rightarrow> uint64 \<Rightarrow> 'm list \<Rightarrow> ('m list result \<times> call list) option) \<Rightarrow>
   (uint8 \<Rightarrow> uint64 \<Rightarrow> uint64 \<Rightarrow> bytes \<Rightarrow> DAChunkRawTx list \<Rightarrow> 'm list \<Rightarrow> uint64 \<Rightarrow> 'm DAEntry) \<Rightarrow>
   uint64 \<Rightarrow> Log \<Rightarrow> commitBatchArgs \<Rightarrow> DAChunkRawTx list \<Rightarrow> ('m DAEntry result \<times> call list) option" where
  "reconcile env loop new batchIndex vLog args chunks =
     (case getBatchTotalL1MessagePopped (ParentBatchHeader args) of
        Panic p \<Rightarrow> Some (Panic p, [])
      | Err e \<Rightarrow> Some (Err e, [])
      | Ok parentTotalL1MessagePopped \<Rightarrow>
          (case DecodeBitmap (codec env) (SkippedL1MessageBitmap args) (totalL1MessagePopped chunks) of
             Inl err \<Rightarrow>
               Some (Err (FailedToDecodeBitmap batchIndex err),
                 [Call_DecodeBitmap (SkippedL1MessageBitmap args) (totalL1MessagePopped chunks)])
           | Inr skippedBitmap \<Rightarrow>
               map_option (after [Call_DecodeBitmap (SkippedL1MessageBitmap args) (totalL1MessagePopped chunks)])
                 (case loop skippedBitmap parentTotalL1MessagePopped (totalL1MessagePopped chunks)
                         parentTotalL1MessagePopped [] of
                    None \<Rightarrow> None
                  | Some (Ok l1Txs, cs) \<Rightarrow>
                      Some (Ok (new (Version args) batchIndex parentTotalL1MessagePopped
                                  (SkippedL1MessageBitmap args) chunks l1Txs (BlockNumber vLog)), cs)
                  | Some (Err e, cs) \<Rightarrow> Some (Err e, cs)
                  | Some (Panic p, cs) \<Rightarrow> Some (Panic p, cs))))"

definition decodeDAV0 ::
  "'m env \<Rightarrow> uint64 \<Rightarrow> Log \<Rightarrow> commitBatchArgs \<Rightarrow> ('m DAEntry result \<times> call list) option" where
  "decodeDAV0 env batchIndex vLog args =
     (case codecv0_DecodeDAChunksRawTx (codec env) (Chunks args) of
        Inl err \<Rightarrow> Some (Err (FailedToUnpackChunks batchIndex err), [Call_DecodeDAChunksRawTx (Chunks args)])
      | Inr chunks \<Rightarrow>
          map_option (after [Call_DecodeDAChunksRawTx (Chunks args)])
            (reconcile env (\<lambda>bm parent n cur l1Txs. Some (l1MessagesV0 env bm parent n cur l1Txs))
               NewCommitBatchDaV0 batchIndex vLog args chunks))"

text \<open>
  \<^verbatim>\<open>decodeDAV1\<close> and \<^verbatim>\<open>decodeDAV2\<close> are the same text but for the codec's package and
  the constructor: \<open>blobDecoder\<close> is that text, with the two decoders and the
  constructor as arguments.
\<close>

definition blobDecoder ::
  "'m env \<Rightarrow> (bytes list \<Rightarrow> error + DAChunkRawTx list) \<Rightarrow>
   (blob \<Rightarrow> DAChunkRawTx list \<Rightarrow> error + DAChunkRawTx list) \<Rightarrow>
   (uint8 \<Rightarrow> uint64 \<Rightarrow> uint64 \<Rightarrow> bytes \<Rightarrow> DAChunkRawTx list \<Rightarrow> 'm list \<Rightarrow> uint64 \<Rightarrow> 'm DAEntry) \<Rightarrow>
   uint64 \<Rightarrow> Log \<Rightarrow> commitBatchArgs \<Rightarrow> ('m DAEntry result \<times> call list) option" where
  "blobDecoder env decodeChunks decodeTxs new batchIndex vLog args =
     (case decodeChunks (Chunks args) of
        Inl err \<Rightarrow> Some (Err (FailedToUnpackChunks batchIndex err), [Call_DecodeDAChunksRawTx (Chunks args)])
      | Inr chunks \<Rightarrow>
     (case fetchTxBlobHash (l1Client env) vLog of
        Inl err \<Rightarrow>
          Some (Err (FailedToFetchBlobHash err),
            [Call_DecodeDAChunksRawTx (Chunks args), Call_fetchTxBlobHash vLog])
      | Inr versionedHash \<Rightarrow>
     (case GetBlobByVersionedHash (blobClient env) versionedHash of
        Inl err \<Rightarrow>
          Some (Err (FailedToFetchBlob err),
            [Call_DecodeDAChunksRawTx (Chunks args), Call_fetchTxBlobHash vLog,
             Call_GetBlobByVersionedHash versionedHash])
      | Inr blob \<Rightarrow>
     (case BlobToCommitment (kzg env) blob of
        Inl err \<Rightarrow>
          Some (Err FailedToCreateBlobCommitment,
            [Call_DecodeDAChunksRawTx (Chunks args), Call_fetchTxBlobHash vLog,
             Call_GetBlobByVersionedHash versionedHash, Call_BlobToCommitment blob])
      | Inr c \<Rightarrow>
     (if CalcBlobHashV1 (kzg env) c \<noteq> versionedHash
      then Some (Err (BlobVersionedHashMismatch versionedHash (CalcBlobHashV1 (kzg env) c)),
            [Call_DecodeDAChunksRawTx (Chunks args), Call_fetchTxBlobHash vLog,
             Call_GetBlobByVersionedHash versionedHash, Call_BlobToCommitment blob])
      else
     (case decodeTxs blob chunks of
        Inl err \<Rightarrow>
          Some (Err (FailedToDecodeTxsFromBlob err),
            [Call_DecodeDAChunksRawTx (Chunks args), Call_fetchTxBlobHash vLog,
             Call_GetBlobByVersionedHash versionedHash, Call_BlobToCommitment blob,
             Call_DecodeTxsFromBlob blob])
      | Inr chunks' \<Rightarrow>
          map_option
            (after [Call_DecodeDAChunksRawTx (Chunks args), Call_fetchTxBlobHash vLog,
               Call_GetBlobByVersionedHash versionedHash, Call_BlobToCommitment blob,
               Call_DecodeTxsFromBlob blob])
            (reconcile env (l1MessagesV1 env) new batchIndex vLog args chunks')))))))"

definition decodeDAV1 ::
  "'m env \<Rightarrow> uint64 \<Rightarrow> Log \<Rightarrow> commitBatchArgs \<Rightarrow> ('m DAEntry result \<times> call list) option" where
  "decodeDAV1 env batchIndex vLog args =
     blobDecoder env (codecv1_DecodeDAChunksRawTx (codec env)) (codecv1_DecodeTxsFromBlob (codec env))
       NewCommitBatchDaV1 batchIndex vLog args"

definition decodeDAV2 ::
  "'m env \<Rightarrow> uint64 \<Rightarrow> Log \<Rightarrow> commitBatchArgs \<Rightarrow> ('m DAEntry result \<times> call list) option" where
  "decodeDAV2 env batchIndex vLog args =
     blobDecoder env (codecv2_DecodeDAChunksRawTx (codec env)) (codecv2_DecodeTxsFromBlob (codec env))
       NewCommitBatchDaV2 batchIndex vLog args"

text \<open>
  \<^verbatim>\<open>NewCommitBatchDAV1WithBlobDecodeFunc\<close> of \<^verbatim>\<open>da/commitV1.go\<close>, the later form of
  the version-1 decoder. The code of its last step, \<^verbatim>\<open>NewCommitBatchDAV0WithChunks\<close>,
  is missing; the step is the parameter \<open>newV0\<close>.
\<close>

definition NewCommitBatchDAV1WithBlobDecodeFunc ::
  "'m env \<Rightarrow> (uint8 \<Rightarrow> uint64 \<Rightarrow> bytes \<Rightarrow> DAChunkRawTx list \<Rightarrow> bytes \<Rightarrow> uint64 \<Rightarrow> error + 'e) \<Rightarrow>
   Log \<Rightarrow> uint8 \<Rightarrow> uint64 \<Rightarrow> bytes \<Rightarrow> bytes list \<Rightarrow> bytes \<Rightarrow>
   (blob \<Rightarrow> DAChunkRawTx list \<Rightarrow> error + DAChunkRawTx list) \<Rightarrow> 'e result \<times> call list" where
  "NewCommitBatchDAV1WithBlobDecodeFunc env newV0 vLog version batchIndex parentBatchHeader chunks
       skippedL1MessageBitmap decodeTxsFromBlobFunc =
     (case codecv1_DecodeDAChunksRawTx (codec env) chunks of
        Inl err \<Rightarrow> (Err (FailedToUnpackChunks batchIndex err), [Call_DecodeDAChunksRawTx chunks])
      | Inr decodedChunks \<Rightarrow>
     (case fetchTxBlobHash (l1Client env) vLog of
        Inl err \<Rightarrow>
          (Err (FailedToFetchBlobHash err), [Call_DecodeDAChunksRawTx chunks, Call_fetchTxBlobHash vLog])
      | Inr versionedHash \<Rightarrow>
     (case GetHeaderByNumber (l1Client env) (BlockNumber vLog) of
        Inl err \<Rightarrow>
          (Err (FailedToGetHeaderByNumber err),
            [Call_DecodeDAChunksRawTx chunks, Call_fetchTxBlobHash vLog,
             Call_GetHeaderByNumber (BlockNumber vLog)])
      | Inr headerTime \<Rightarrow>
     (case GetBlobByVersionedHashAndBlockTime (blobClient env) versionedHash headerTime of
        Inl err \<Rightarrow>
          (Err (FailedToFetchBlob err),
            [Call_DecodeDAChunksRawTx chunks, Call_fetchTxBlobHash vLog,
             Call_GetHeaderByNumber (BlockNumber vLog),
             Call_GetBlobByVersionedHashAndBlockTime versionedHash headerTime])
      | Inr None \<Rightarrow>
          (Err (UnexpectedNilBlob batchIndex versionedHash),
            [Call_DecodeDAChunksRawTx chunks, Call_fetchTxBlobHash vLog,
             Call_GetHeaderByNumber (BlockNumber vLog),
             Call_GetBlobByVersionedHashAndBlockTime versionedHash headerTime])
      | Inr (Some blob) \<Rightarrow>
     (case BlobToCommitment (kzg env) blob of
        Inl err \<Rightarrow>
          (Err FailedToCreateBlobCommitment,
            [Call_DecodeDAChunksRawTx chunks, Call_fetchTxBlobHash vLog,
             Call_GetHeaderByNumber (BlockNumber vLog),
             Call_GetBlobByVersionedHashAndBlockTime versionedHash headerTime,
             Call_BlobToCommitment blob])
      | Inr c \<Rightarrow>
     (if CalcBlobHashV1 (kzg env) c \<noteq> versionedHash
      then (Err (BlobVersionedHashMismatch versionedHash (CalcBlobHashV1 (kzg env) c)),
            [Call_DecodeDAChunksRawTx chunks, Call_fetchTxBlobHash vLog,
             Call_GetHeaderByNumber (BlockNumber vLog),
             Call_GetBlobByVersionedHashAndBlockTime versionedHash headerTime,
             Call_BlobToCommitment blob])
      else
     (case decodeTxsFromBlobFunc blob decodedChunks of
        Inl err \<Rightarrow>
          (Err (FailedToDecodeTxsFromBlob err),
            [Call_DecodeDAChunksRawTx chunks, Call_fetchTxBlobHash vLog,
             Call_GetHeaderByNumber (BlockNumber vLog),
             Call_GetBlobByVersionedHashAndBlockTime versionedHash headerTime,
             Call_BlobToCommitment blob, Call_DecodeTxsFromBlob blob])
      | Inr decodedChunks' \<Rightarrow>
          (case newV0 version batchIndex parentBatchHeader decodedChunks' skippedL1MessageBitmap
                  (BlockNumber vLog) of
             Inl err \<Rightarrow> Err err
           | Inr v0 \<Rightarrow> Ok v0,
           [Call_DecodeDAChunksRawTx chunks, Call_fetchTxBlobHash vLog,
            Call_GetHeaderByNumber (BlockNumber vLog),
            Call_GetBlobByVersionedHashAndBlockTime versionedHash headerTime,
            Call_BlobToCommitment blob, Call_DecodeTxsFromBlob blob,
            Call_NewCommitBatchDAV0WithChunks]))))))))"

section \<open>The batch event dispatcher\<close>

definition methodIDLength :: nat where
  "methodIDLength = 4"

text \<open>
  \<^verbatim>\<open>getCommitBatchDa\<close>. \<^verbatim>\<open>txData[:methodIDLength]\<close> is \<open>take\<close> and
  \<^verbatim>\<open>txData[methodIDLength:]\<close> is \<open>drop\<close>, both after the length check. In the
  \<^verbatim>\<open>else\<close> branch the source builds \<^verbatim>\<open>usedArgs\<close> before it looks at the error of
  \<^verbatim>\<open>Copy\<close>; nothing reads \<^verbatim>\<open>usedArgs\<close> when there is one.
\<close>

definition getCommitBatchDa ::
  "'m env \<Rightarrow> uint64 \<Rightarrow> Log \<Rightarrow> ('m DAEntry result \<times> call list) option" where
  "getCommitBatchDa env batchIndex vLog =
     (if batchIndex = 0
      then Some (Ok (NewCommitBatchDaV0 0 batchIndex 0 [] [] [] 0), [])
      else
     (case fetchTxData (l1Client env) vLog of
        Inl err \<Rightarrow> Some (Err err, [Call_fetchTxData vLog])
      | Inr txData \<Rightarrow>
     (if length txData < methodIDLength
      then Some (Err (TxDataTooShort (length txData) methodIDLength), [Call_fetchTxData vLog])
      else
     (case MethodById (scrollChainABI env) (take methodIDLength txData) of
        Inl err \<Rightarrow>
          Some (Err (FailedToGetMethodById (take methodIDLength txData) err),
            [Call_fetchTxData vLog, Call_MethodById (take methodIDLength txData)])
      | Inr method \<Rightarrow>
     (case Unpack (scrollChainABI env) method (drop methodIDLength txData) of
        Inl err \<Rightarrow>
          Some (Err (FailedToUnpackTxData txData err),
            [Call_fetchTxData vLog, Call_MethodById (take methodIDLength txData),
             Call_Unpack (drop methodIDLength txData)])
      | Inr values \<Rightarrow>
     (if Name method = ''commitBatch''
      then
        (case Copy_commitBatchArgs (scrollChainABI env) method values of
           Inl err \<Rightarrow>
             Some (Err (FailedToDecodeCalldata values err),
               [Call_fetchTxData vLog, Call_MethodById (take methodIDLength txData),
                Call_Unpack (drop methodIDLength txData), Call_Copy values])
         | Inr args \<Rightarrow>
             map_option
               (after [Call_fetchTxData vLog, Call_MethodById (take methodIDLength txData),
                  Call_Unpack (drop methodIDLength txData), Call_Copy values])
               (if Version args = 0 then decodeDAV0 env batchIndex vLog args
                else if Version args = 1 then decodeDAV1 env batchIndex vLog args
                else if Version args = 2 then decodeDAV2 env batchIndex vLog args
                else Some (Err (UnknownCodecVersion (Version args)), [])))
      else
        (case Copy_commitBatchWithBlobProofArgs (scrollChainABI env) method values of
           Inl err \<Rightarrow>
             Some (Err (FailedToDecodeCalldata values err),
               [Call_fetchTxData vLog, Call_MethodById (take methodIDLength txData),
                Call_Unpack (drop methodIDLength txData), Call_Copy values])
         | Inr args \<Rightarrow>
             map_option
               (after [Call_fetchTxData vLog, Call_MethodById (take methodIDLength txData),
                  Call_Unpack (drop methodIDLength txData), Call_Copy values])
               (decodeDAV2 env batchIndex vLog
                  \<lparr>Version = bp_Version args, ParentBatchHeader = bp_ParentBatchHeader args,
                   Chunks = bp_Chunks args,
                   SkippedL1MessageBitmap = bp_SkippedL1MessageBitmap args\<rparr>))))))))"

text \<open>
  The cursor and the three event signatures of \<^verbatim>\<open>CalldataBlobSource\<close>; its other
  fields are the collaborators.
\<close>

record CalldataBlobSource =
  l1height :: uint64
  l1CommitBatchEventSignature :: hash
  l1RevertBatchEventSignature :: hash
  l1FinalizeBatchEventSignature :: hash

text \<open>
  One round of the loop of \<^verbatim>\<open>processLogsToDA\<close>: the entry of one log, or why there is
  none. \<^verbatim>\<open>vLog.Topics[0]\<close> panics on a log without topics; the \<^verbatim>\<open>switch\<close> takes the
  first case that matches.
\<close>

definition logToDAEntry ::
  "'m env \<Rightarrow> CalldataBlobSource \<Rightarrow> Log \<Rightarrow> ('m DAEntry result \<times> call list) option" where
  "logToDAEntry env ds vLog =
     (case Topics vLog of
        [] \<Rightarrow> Some (Panic (IndexOutOfRange 0 0), [])
      | topic0 # _ \<Rightarrow>
          if topic0 = l1CommitBatchEventSignature ds then
            (case UnpackLog (scrollChainABI env) ''CommitBatch'' vLog of
               Inl err \<Rightarrow> Some (Err (FailedToUnpackCommitLog err), [Call_UnpackLog ''CommitBatch'' vLog])
             | Inr batchIndex \<Rightarrow>
                 (case getCommitBatchDa env batchIndex vLog of
                    None \<Rightarrow> None
                  | Some (Ok daEntry, cs) \<Rightarrow> Some (Ok daEntry, Call_UnpackLog ''CommitBatch'' vLog # cs)
                  | Some (Err err, cs) \<Rightarrow>
                      Some (Err (FailedToGetCommitBatchDa batchIndex err),
                        Call_UnpackLog ''CommitBatch'' vLog # cs)
                  | Some (Panic p, cs) \<Rightarrow> Some (Panic p, Call_UnpackLog ''CommitBatch'' vLog # cs)))
          else if topic0 = l1RevertBatchEventSignature ds then
            (case UnpackLog (scrollChainABI env) ''RevertBatch'' vLog of
               Inl err \<Rightarrow> Some (Err (FailedToUnpackRevertLog err), [Call_UnpackLog ''RevertBatch'' vLog])
             | Inr batchIndex \<Rightarrow>
                 Some (Ok (NewRevertBatchDA batchIndex), [Call_UnpackLog ''RevertBatch'' vLog]))
          else if topic0 = l1FinalizeBatchEventSignature ds then
            (case UnpackLog (scrollChainABI env) ''FinalizeBatch'' vLog of
               Inl err \<Rightarrow>
                 Some (Err (FailedToUnpackFinalizedLog err), [Call_UnpackLog ''FinalizeBatch'' vLog])
             | Inr batchIndex \<Rightarrow>
                 Some (Ok (NewFinalizeBatchDA batchIndex), [Call_UnpackLog ''FinalizeBatch'' vLog]))
          else Some (Err (UnknownEvent topic0 (TxHash vLog)), []))"

text \<open>
  The loop of \<^verbatim>\<open>processLogsToDA\<close> over the logs left, \<open>da\<close> being the entries
  appended so far; the first error or panic ends it.
\<close>

fun processLogs ::
  "'m env \<Rightarrow> CalldataBlobSource \<Rightarrow> Log list \<Rightarrow> 'm DA \<Rightarrow> ('m DA result \<times> call list) option" where
  "processLogs env ds [] da = Some (Ok da, [])"
| "processLogs env ds (vLog # logs) da =
     (case logToDAEntry env ds vLog of
        None \<Rightarrow> None
      | Some (Ok daEntry, cs) \<Rightarrow> map_option (after cs) (processLogs env ds logs (da @ [daEntry]))
      | Some (Err err, cs) \<Rightarrow> Some (Err err, cs)
      | Some (Panic p, cs) \<Rightarrow> Some (Panic p, cs))"

definition processLogsToDA ::
  "'m env \<Rightarrow> CalldataBlobSource \<Rightarrow> Log list \<Rightarrow> ('m DA result \<times> call list) option" where
  "processLogsToDA env ds logs = processLogs env ds logs []"

text \<open>
  The claim about the dispatcher, in the spec's words: the entry of a log is of the
  log's kind (commit, revert or finalize, told by the first topic) and carries the
  batch index of the log's event.
\<close>

definition entryOfLog :: "'m env \<Rightarrow> CalldataBlobSource \<Rightarrow> Log \<Rightarrow> 'm DAEntry \<Rightarrow> bool" where
  "entryOfLog env ds vLog entry =
     (case Topics vLog of
        [] \<Rightarrow> False
      | topic0 # _ \<Rightarrow>
          if topic0 = l1CommitBatchEventSignature ds then
            (case entry of
               Commit f \<Rightarrow> UnpackLog (scrollChainABI env) ''CommitBatch'' vLog = Inr (cb_BatchIndex f)
             | _ \<Rightarrow> False)
          else if topic0 = l1RevertBatchEventSignature ds then
            (case entry of
               Revert f \<Rightarrow> UnpackLog (scrollChainABI env) ''RevertBatch'' vLog = Inr (rv_BatchIndex f)
             | _ \<Rightarrow> False)
          else if topic0 = l1FinalizeBatchEventSignature ds then
            (case entry of
               Finalize f \<Rightarrow> UnpackLog (scrollChainABI env) ''FinalizeBatch'' vLog = Inr (fn_BatchIndex f)
             | _ \<Rightarrow> False)
          else False)"

section \<open>The range-advancing source\<close>

definition callDataBlobSourceFetchBlockRange :: uint64 where
  "callDataBlobSourceFetchBlockRange = 500"

text \<open>
  The upper bound \<^verbatim>\<open>to\<close> of \<^verbatim>\<open>NextData\<close>, from the cursor and the finalized height:
  \<^verbatim>\<open>to := ds.l1height + callDataBlobSourceFetchBlockRange\<close>, then
  \<^verbatim>\<open>if to > l1Finalized.Uint64() { to = l1Finalized.Uint64() }\<close>.
\<close>

definition fetchTo :: "uint64 \<Rightarrow> uint64 \<Rightarrow> uint64" where
  "fetchTo cursor l1Finalized =
     (let to = cursor + callDataBlobSourceFetchBlockRange
      in if to > l1Finalized then l1Finalized else to)"

text \<open>
  \<^verbatim>\<open>NextData\<close> returns what the Go method returns, the source after the call and the
  calls made.
\<close>

definition NextData ::
  "'m env \<Rightarrow> CalldataBlobSource \<Rightarrow> ('m DA result \<times> CalldataBlobSource \<times> call list) option" where
  "NextData env ds =
     (case getFinalizedBlockNumber (l1Client env) of
        Inl err \<Rightarrow> Some (Err (CannotGetL1Height err), ds, [Call_getFinalizedBlockNumber])
      | Inr l1Finalized \<Rightarrow>
          if l1height ds > fetchTo (l1height ds) l1Finalized
          then Some (Err SourceExhausted, ds, [Call_getFinalizedBlockNumber])
          else
            (case fetchRollupEventsInRange (l1Client env) (l1height ds)
                    (fetchTo (l1height ds) l1Finalized) of
               Inl err \<Rightarrow>
                 Some (Err (CannotGetEvents (l1height ds) err), ds,
                   [Call_getFinalizedBlockNumber,
                    Call_fetchRollupEventsInRange (l1height ds) (fetchTo (l1height ds) l1Finalized)])
             | Inr logs \<Rightarrow>
                 (case processLogsToDA env ds logs of
                    None \<Rightarrow> None
                  | Some (Ok da, cs) \<Rightarrow>
                      Some (Ok da, ds\<lparr>l1height := fetchTo (l1height ds) l1Finalized + 1\<rparr>,
                        Call_getFinalizedBlockNumber
                        # Call_fetchRollupEventsInRange (l1height ds) (fetchTo (l1height ds) l1Finalized)
                        # cs)
                  | Some (Err err, cs) \<Rightarrow>
                      Some (Err err, ds,
                        Call_getFinalizedBlockNumber
                        # Call_fetchRollupEventsInRange (l1height ds) (fetchTo (l1height ds) l1Finalized)
                        # cs)
                  | Some (Panic p, cs) \<Rightarrow>
                      Some (Panic p, ds,
                        Call_getFinalizedBlockNumber
                        # Call_fetchRollupEventsInRange (l1height ds) (fetchTo (l1height ds) l1Finalized)
                        # cs))))"

definition L1Height :: "CalldataBlobSource \<Rightarrow> uint64" where
  "L1Height ds = l1height ds"

text \<open>
  Consecutive successful steps of one source: \<open>NextDataSteps envs ds\<close> calls
  \<^verbatim>\<open>NextData\<close> once for each element of \<open>envs\<close> (the collaborators as they are at
  that call) and lists the cursor after each call; it is \<open>None\<close> as soon as a call
  does not return a DA sequence.
\<close>

fun NextDataSteps :: "'m env list \<Rightarrow> CalldataBlobSource \<Rightarrow> uint64 list option" where
  "NextDataSteps [] ds = Some []"
| "NextDataSteps (env # envs) ds =
     (case NextData env ds of
        Some (Ok da, ds', cs) \<Rightarrow> map_option ((#) (l1height ds')) (NextDataSteps envs ds')
      | _ \<Rightarrow> None)"

section \<open>The continuous DA queue\<close>

text \<open>
  \<^verbatim>\<open>DAQueue\<close> of \<^verbatim>\<open>da_queue.go\<close>. Its \<^verbatim>\<open>dataSource\<close> is the \<^verbatim>\<open>DataSource\<close>
  interface (\<^verbatim>\<open>NextData\<close>, \<^verbatim>\<open>L1Height\<close>), here the source above;
  the code of \<^verbatim>\<open>dataSourceFactory.OpenDataSource\<close> is missing, and it is a parameter.
\<close>

record 'm DAQueue =
  dq_l1height :: uint64
  dataSource :: "CalldataBlobSource option"
  dq_da :: "'m DA"

definition NewDAQueue :: "uint64 \<Rightarrow> 'm DAQueue" where
  "NewDAQueue height = \<lparr>dq_l1height = height, dataSource = None, dq_da = []\<rparr>"

text \<open>
  \<^verbatim>\<open>getNextData\<close>. Every call of \<^verbatim>\<open>NextData\<close> meets the collaborators as they are at
  that moment: \<open>envs\<close> lists them for the calls to come, and the result is \<open>None\<close> when
  the list ends before the function returns. On the sentinel the function calls itself
  (\<^verbatim>\<open>return dq.getNextData(ctx)\<close>); Go keeps the caller's frame during that call, so
  the last component of the result counts the activations of \<^verbatim>\<open>getNextData\<close> that are
  on the stack when the innermost one returns.

  \<^verbatim>\<open>dq.da, err = dq.dataSource.NextData()\<close> stores the returned slice whatever the
  error is, and \<^verbatim>\<open>NextData\<close> returns a nil slice with every error.
\<close>

fun getNextData ::
  "(uint64 \<Rightarrow> error + CalldataBlobSource) \<Rightarrow> 'm env list \<Rightarrow> 'm DAQueue \<Rightarrow>
   (unit result \<times> 'm DAQueue \<times> nat) option" where
  "getNextData OpenDataSource envs dq =
     (case (case dataSource dq of
              None \<Rightarrow> OpenDataSource (dq_l1height dq)
            | Some src \<Rightarrow> Inr src) of
        Inl err \<Rightarrow> Some (Err err, dq, 1)
      | Inr src \<Rightarrow>
          (case envs of
             [] \<Rightarrow> None
           | env # envs' \<Rightarrow>
               (case NextData env src of
                  None \<Rightarrow> None
                | Some (Panic p, src', cs) \<Rightarrow> Some (Panic p, dq\<lparr>dataSource := Some src'\<rparr>, 1)
                | Some (Ok da, src', cs) \<Rightarrow> Some (Ok (), dq\<lparr>dataSource := Some src', dq_da := da\<rparr>, 1)
                | Some (Err err, src', cs) \<Rightarrow>
                    if err = SourceExhausted
                    then
                      (case getNextData OpenDataSource envs'
                              (dq\<lparr>dq_l1height := L1Height src', dataSource := None, dq_da := []\<rparr>) of
                         None \<Rightarrow> None
                       | Some (r, dq', depth) \<Rightarrow> Some (r, dq', Suc depth))
                    else Some (Err err, dq\<lparr>dataSource := Some src', dq_da := []\<rparr>, 1))))"

section \<open>Concrete collaborators\<close>

text \<open>
  Stand-ins for the collaborators, for the theorems that run the code on a concrete
  input. The ABI knows two selectors; the call data after the selector is one byte, the
  version, and the other arguments are fixed: a parent header whose field at bytes
  17 to 24 is 3, one chunk of one block with two message slots, and a bitmap whose
  bit 0 is set. The chunk codec reads one block per byte, the byte being the block's
  \<^verbatim>\<open>NumL1Messages\<close>. The message store holds the indices below 10, each message being
  its index.
\<close>

definition ex_header :: bytes where
  "ex_header = [0,0,0,0,0,0,0,0,0,0,0,0,0,0,0,0,0, 0,0,0,0,0,0,0,3]"

definition ex_bitmap :: bytes where
  "ex_bitmap = [0,0,0,0,0,0,0,0,0,0,0,0,0,0,0,0,0,0,0,0,0,0,0,0,0,0,0,0,0,0,0,1]"

definition ex_DecodeDAChunksRawTx :: "bytes list \<Rightarrow> error + DAChunkRawTx list" where
  "ex_DecodeDAChunksRawTx chunks =
     Inr (map (\<lambda>chunk. \<lparr>Blocks = map (\<lambda>b. \<lparr>NumTransactions = 0, NumL1Messages = ucast b\<rparr>) chunk,
                         Transactions = []\<rparr>) chunks)"

text \<open>
  The bitmap as the da-codec library reads it: big-endian words of 32 bytes, slot \<open>i\<close>
  being bit \<open>i mod 256\<close> of word \<open>i div 256\<close>.
\<close>

fun ex_bitmapWords :: "nat \<Rightarrow> bytes \<Rightarrow> nat list" where
  "ex_bitmapWords 0 bs = []"
| "ex_bitmapWords (Suc k) bs =
     foldl (\<lambda>a b. a * 256 + unat b) 0 (take 32 bs) # ex_bitmapWords k (drop 32 bs)"

definition ex_DecodeBitmap :: "bytes \<Rightarrow> nat \<Rightarrow> error + bitmap" where
  "ex_DecodeBitmap bs n =
     (if length bs mod 32 \<noteq> 0 then Inl (Other ''skippedL1MessageBitmap length doesn't match'')
      else if length bs * 8 < n then Inl (Other ''skippedL1MessageBitmap length is too small'')
      else Inr (ex_bitmapWords (length bs div 32) bs))"

definition ex_IsL1MessageSkipped :: "bitmap \<Rightarrow> uint64 \<Rightarrow> bool" where
  "ex_IsL1MessageSkipped bm index =
     (unat index div 256 < length bm \<and>
      (bm ! (unat index div 256)) div 2 ^ (unat index mod 256) mod 2 = 1)"

definition ex_codec :: Codec where
  "ex_codec =
     \<lparr>codecv0_DecodeDAChunksRawTx = ex_DecodeDAChunksRawTx,
      codecv1_DecodeDAChunksRawTx = ex_DecodeDAChunksRawTx,
      codecv2_DecodeDAChunksRawTx = ex_DecodeDAChunksRawTx,
      codecv1_DecodeTxsFromBlob = (\<lambda>blob chunks. Inr chunks),
      codecv2_DecodeTxsFromBlob = (\<lambda>blob chunks. Inr chunks),
      DecodeBitmap = ex_DecodeBitmap,
      IsL1MessageSkipped = ex_IsL1MessageSkipped\<rparr>"

definition ex_MethodById :: "bytes \<Rightarrow> error + Method" where
  "ex_MethodById sel =
     (if sel = [1, 2, 3, 4] then Inr \<lparr>Name = ''commitBatch'', ID = sel\<rparr>
      else if sel = [5, 6, 7, 8] then Inr \<lparr>Name = ''commitBatchWithBlobProof'', ID = sel\<rparr>
      else Inl (Other ''no method with id''))"

definition ex_Unpack :: "Method \<Rightarrow> bytes \<Rightarrow> error + abi_value list" where
  "ex_Unpack method data =
     (case data of
        [] \<Rightarrow> Inl (Other ''abi: attempting to unmarshal an empty string'')
      | v # _ \<Rightarrow>
          if Name method = ''commitBatch''
          then Inr [AbiUint8 v, AbiBytes ex_header, AbiBytesList [[2]], AbiBytes ex_bitmap]
          else Inr [AbiUint8 v, AbiBytes ex_header, AbiBytesList [[2]], AbiBytes ex_bitmap,
                    AbiBytes [170, 187]])"

definition ex_Copy_commitBatchArgs :: "Method \<Rightarrow> abi_value list \<Rightarrow> error + commitBatchArgs" where
  "ex_Copy_commitBatchArgs method vals =
     (case vals of
        [AbiUint8 v, AbiBytes h, AbiBytesList cs, AbiBytes bm] \<Rightarrow>
          Inr \<lparr>Version = v, ParentBatchHeader = h, Chunks = cs, SkippedL1MessageBitmap = bm\<rparr>
      | _ \<Rightarrow> Inl (Other ''abi: cannot copy''))"

definition ex_Copy_commitBatchWithBlobProofArgs ::
  "Method \<Rightarrow> abi_value list \<Rightarrow> error + commitBatchWithBlobProofArgs" where
  "ex_Copy_commitBatchWithBlobProofArgs method vals =
     (case vals of
        [AbiUint8 v, AbiBytes h, AbiBytesList cs, AbiBytes bm, AbiBytes pf] \<Rightarrow>
          Inr \<lparr>bp_Version = v, bp_ParentBatchHeader = h, bp_Chunks = cs,
               bp_SkippedL1MessageBitmap = bm, bp_BlobDataProof = pf\<rparr>
      | _ \<Rightarrow> Inl (Other ''abi: cannot copy''))"

text \<open>The events carry the batch index as their first indexed argument, \<^verbatim>\<open>Topics[1]\<close>.\<close>

definition ex_UnpackLog :: "string \<Rightarrow> Log \<Rightarrow> error + uint64" where
  "ex_UnpackLog name vLog =
     (case Topics vLog of
        _ # batchIndex # _ \<Rightarrow> Inr (ucast batchIndex)
      | _ \<Rightarrow> Inl (Other ''abi: missing indexed argument''))"

definition ex_abi :: ABI where
  "ex_abi =
     \<lparr>UnpackLog = ex_UnpackLog, MethodById = ex_MethodById, Unpack = ex_Unpack,
      Copy_commitBatchArgs = ex_Copy_commitBatchArgs,
      Copy_commitBatchWithBlobProofArgs = ex_Copy_commitBatchWithBlobProofArgs\<rparr>"

text \<open>
  The transaction of a log is told by its hash: \<open>0xA0\<close>, \<open>0xA1\<close>, \<open>0xA2\<close> call
  \<^verbatim>\<open>commitBatch\<close> with versions 0, 1, 2, \<open>0xA9\<close> with version 9, and \<open>0xB7\<close> calls
  \<^verbatim>\<open>commitBatchWithBlobProof\<close> with version 7.
\<close>

definition ex_fetchTxData :: "Log \<Rightarrow> error + bytes" where
  "ex_fetchTxData vLog =
     (if TxHash vLog = 0xA0 then Inr [1, 2, 3, 4, 0]
      else if TxHash vLog = 0xA1 then Inr [1, 2, 3, 4, 1]
      else if TxHash vLog = 0xA2 then Inr [1, 2, 3, 4, 2]
      else if TxHash vLog = 0xA9 then Inr [1, 2, 3, 4, 9]
      else if TxHash vLog = 0xB7 then Inr [5, 6, 7, 8, 7]
      else Inl (Other ''not found''))"

text \<open>
  The logs of the chain: a commit of batch 5 at height 10, its revert at height 20, a
  finalize of batch 4 at height 30. The signatures of the three events are 1, 2, 3.
\<close>

definition ex_commitLog :: Log where
  "ex_commitLog = \<lparr>Topics = [1, 5], BlockNumber = 10, TxHash = 0xA0\<rparr>"

definition ex_revertLog :: Log where
  "ex_revertLog = \<lparr>Topics = [2, 5], BlockNumber = 20, TxHash = 0xC0\<rparr>"

definition ex_finalizeLog :: Log where
  "ex_finalizeLog = \<lparr>Topics = [3, 4], BlockNumber = 30, TxHash = 0xC1\<rparr>"

definition ex_l1Client :: "uint64 \<Rightarrow> L1Client" where
  "ex_l1Client finalized =
     \<lparr>getFinalizedBlockNumber = Inr finalized,
      fetchRollupEventsInRange =
        (\<lambda>from to. Inr (filter (\<lambda>vLog. from \<le> BlockNumber vLog \<and> BlockNumber vLog \<le> to)
                          [ex_commitLog, ex_revertLog, ex_finalizeLog])),
      fetchTxData = ex_fetchTxData,
      fetchTxBlobHash = (\<lambda>vLog. Inr 77),
      GetHeaderByNumber = (\<lambda>number. Inr 1700000000)\<rparr>"

text \<open>
  The blob provider answers every hash with the blob \<open>blob\<close>; the commitment of a blob
  is the blob, and the versioned hash of the commitment \<open>[9, 9]\<close> is 77, of any other 78.
\<close>

definition ex_blobClient :: "blob \<Rightarrow> BlobClient" where
  "ex_blobClient blob =
     \<lparr>GetBlobByVersionedHash = (\<lambda>h. Inr blob),
      GetBlobByVersionedHashAndBlockTime = (\<lambda>h t. Inr (Some blob))\<rparr>"

definition ex_kzg :: Kzg where
  "ex_kzg =
     \<lparr>BlobToCommitment = (\<lambda>blob. Inr blob),
      CalcBlobHashV1 = (\<lambda>c. if c = [9, 9] then 77 else 78)\<rparr>"

definition ex_env :: "uint64 \<Rightarrow> blob \<Rightarrow> nat env" where
  "ex_env finalized blob =
     \<lparr>l1Client = ex_l1Client finalized, blobClient = ex_blobClient blob, scrollChainABI = ex_abi,
      codec = ex_codec, kzg = ex_kzg,
      ReadL1Message = (\<lambda>index. if index < 10 then Some (unat index) else None)\<rparr>"

definition ex_source :: "uint64 \<Rightarrow> CalldataBlobSource" where
  "ex_source height =
     \<lparr>l1height = height, l1CommitBatchEventSignature = 1, l1RevertBatchEventSignature = 2,
      l1FinalizeBatchEventSignature = 3\<rparr>"

definition ex_args :: "uint8 \<Rightarrow> commitBatchArgs" where
  "ex_args version =
     \<lparr>Version = version, ParentBatchHeader = ex_header, Chunks = [[2]],
      SkippedL1MessageBitmap = ex_bitmap\<rparr>"

text \<open>
  A commit through \<^verbatim>\<open>commitBatchWithBlobProof\<close> with version 7 (batch 6, height 40), a
  commit through \<^verbatim>\<open>commitBatch\<close> with version 9 (batch 7, height 50), and a parent
  header of 24 bytes.
\<close>

definition ex_version9Log :: Log where
  "ex_version9Log = \<lparr>Topics = [1, 7], BlockNumber = 50, TxHash = 0xA9\<rparr>"

definition ex_blobProofLog :: Log where
  "ex_blobProofLog = \<lparr>Topics = [1, 6], BlockNumber = 40, TxHash = 0xB7\<rparr>"

definition ex_shortHeader :: bytes where
  "ex_shortHeader = [0,0,0,0,0,0,0,0,0,0,0,0,0,0,0,0,0, 0,0,0,0,0,0,3]"

text \<open>A source factory that opens the source above at the height asked for.\<close>

definition ex_OpenDataSource :: "uint64 \<Rightarrow> error + CalldataBlobSource" where
  "ex_OpenDataSource height = Inr (ex_source height)"

section \<open>Running the code on the concrete collaborators\<close>

lemmas ex_defs = ex_env_def ex_l1Client_def ex_blobClient_def ex_kzg_def ex_abi_def ex_codec_def
  ex_header_def ex_bitmap_def ex_DecodeDAChunksRawTx_def ex_DecodeBitmap_def ex_IsL1MessageSkipped_def
  ex_MethodById_def ex_Unpack_def ex_Copy_commitBatchArgs_def ex_Copy_commitBatchWithBlobProofArgs_def
  ex_UnpackLog_def ex_fetchTxData_def ex_commitLog_def ex_revertLog_def ex_finalizeLog_def
  ex_source_def ex_args_def

lemmas model_defs = decodeDAV0_def decodeDAV1_def decodeDAV2_def blobDecoder_def reconcile_def
  getBatchTotalL1MessagePopped_def BigEndian_Uint64_def totalL1MessagePopped_def after_def
  NewCommitBatchDaV0_def NewCommitBatchDaV1_def NewCommitBatchDaV2_def

lemmas run_defs = NextData_def fetchTo_def callDataBlobSourceFetchBlockRange_def processLogsToDA_def
  logToDAEntry_def getCommitBatchDa_def methodIDLength_def NewRevertBatchDA_def NewFinalizeBatchDA_def
  L1Height_def

text \<open>The message loops count down a numeral one step at a time.\<close>

lemma l1MessagesV0_numeral:
  "l1MessagesV0 env bm parent (numeral k) cur l1Txs =
     l1MessagesV0 env bm parent (Suc (pred_numeral k)) cur l1Txs"
  by (simp only: numeral_eq_Suc)

lemma l1MessagesV1_numeral:
  "l1MessagesV1 env bm parent (numeral k) cur l1Txs =
     l1MessagesV1 env bm parent (Suc (pred_numeral k)) cur l1Txs"
  by (simp only: numeral_eq_Suc)

lemma ex_processLogs:
  "processLogsToDA (ex_env 1000 [9, 9]) (ex_source 0) [ex_commitLog, ex_revertLog, ex_finalizeLog] =
     Some (Ok [Commit \<lparr>cb_DaType = CommitBatchV0, cb_Version = 0, cb_BatchIndex = 5,
                  cb_ParentTotalL1MessagePopped = 3, cb_SkippedL1MessageBitmap = ex_bitmap,
                  cb_Chunks = [\<lparr>Blocks = [\<lparr>NumTransactions = 0, NumL1Messages = 2\<rparr>], Transactions = []\<rparr>],
                  cb_L1Txs = [4], cb_L1BlockNumber = 10\<rparr>,
               Revert \<lparr>rv_DaType = RevertBatch, rv_BatchIndex = 5, rv_L1BlockNumber = 0\<rparr>,
               Finalize \<lparr>fn_DaType = FinalizeBatch, fn_BatchIndex = 4, fn_L1BlockNumber = 0\<rparr>],
       [Call_UnpackLog ''CommitBatch'' ex_commitLog, Call_fetchTxData ex_commitLog,
        Call_MethodById [1, 2, 3, 4], Call_Unpack [0],
        Call_Copy [AbiUint8 0, AbiBytes ex_header, AbiBytesList [[2]], AbiBytes ex_bitmap],
        Call_DecodeDAChunksRawTx [[2]], Call_DecodeBitmap ex_bitmap 2, Call_ReadL1Message 4,
        Call_UnpackLog ''RevertBatch'' ex_revertLog, Call_UnpackLog ''FinalizeBatch'' ex_finalizeLog])"
  by (simp add: run_defs model_defs ex_defs l1MessagesV0_numeral)

lemma ex_NextData:
  "NextData (ex_env 1000 [9, 9]) (ex_source 0) =
     Some (Ok [Commit \<lparr>cb_DaType = CommitBatchV0, cb_Version = 0, cb_BatchIndex = 5,
                  cb_ParentTotalL1MessagePopped = 3, cb_SkippedL1MessageBitmap = ex_bitmap,
                  cb_Chunks = [\<lparr>Blocks = [\<lparr>NumTransactions = 0, NumL1Messages = 2\<rparr>], Transactions = []\<rparr>],
                  cb_L1Txs = [4], cb_L1BlockNumber = 10\<rparr>,
               Revert \<lparr>rv_DaType = RevertBatch, rv_BatchIndex = 5, rv_L1BlockNumber = 0\<rparr>,
               Finalize \<lparr>fn_DaType = FinalizeBatch, fn_BatchIndex = 4, fn_L1BlockNumber = 0\<rparr>],
       ex_source 501,
       [Call_getFinalizedBlockNumber, Call_fetchRollupEventsInRange 0 500,
        Call_UnpackLog ''CommitBatch'' ex_commitLog, Call_fetchTxData ex_commitLog,
        Call_MethodById [1, 2, 3, 4], Call_Unpack [0],
        Call_Copy [AbiUint8 0, AbiBytes ex_header, AbiBytesList [[2]], AbiBytes ex_bitmap],
        Call_DecodeDAChunksRawTx [[2]], Call_DecodeBitmap ex_bitmap 2, Call_ReadL1Message 4,
        Call_UnpackLog ''RevertBatch'' ex_revertLog, Call_UnpackLog ''FinalizeBatch'' ex_finalizeLog])"
  by (simp add: run_defs model_defs ex_defs l1MessagesV0_numeral)

lemma ex_NextData_wrap:
  "NextData (ex_env (- 1) [9, 9]) (ex_source 18446744073709551115) =
     Some (Ok [], ex_source 0,
       [Call_getFinalizedBlockNumber,
        Call_fetchRollupEventsInRange 18446744073709551115 18446744073709551615])"
  by (simp add: run_defs model_defs ex_defs)

section \<open>The genesis batch\<close>

text \<open>
  Claim C6. A commit event with batch index 0 yields the empty BatchCommit entry (no
  chunks, no attached messages) whatever the log and the collaborators are, and the
  list of calls is empty: no transaction data is fetched, no argument is decoded, no
  collaborator is called.
\<close>

theorem genesis_commit_is_empty:
  "getCommitBatchDa env 0 vLog =
     Some (Ok (Commit \<lparr>cb_DaType = CommitBatchV0, cb_Version = 0, cb_BatchIndex = 0,
                 cb_ParentTotalL1MessagePopped = 0, cb_SkippedL1MessageBitmap = [],
                 cb_Chunks = [], cb_L1Txs = [], cb_L1BlockNumber = 0\<rparr>), [])"
  by (simp add: getCommitBatchDa_def NewCommitBatchDaV0_def)

section \<open>Blob authenticity\<close>

lemma blobDecoder_mismatch:
  assumes "decodeChunks (Chunks args) = Inr chunks"
      and "fetchTxBlobHash (l1Client env) vLog = Inr versionedHash"
      and "GetBlobByVersionedHash (blobClient env) versionedHash = Inr blob"
      and "BlobToCommitment (kzg env) blob = Inr c"
      and "CalcBlobHashV1 (kzg env) c \<noteq> versionedHash"
  shows "blobDecoder env decodeChunks decodeTxs new batchIndex vLog args =
           Some (Err (BlobVersionedHashMismatch versionedHash (CalcBlobHashV1 (kzg env) c)),
             [Call_DecodeDAChunksRawTx (Chunks args), Call_fetchTxBlobHash vLog,
              Call_GetBlobByVersionedHash versionedHash, Call_BlobToCommitment blob])"
  using assms by (simp add: blobDecoder_def)

lemma blobDecoder_Ok_hash:
  assumes "blobDecoder env decodeChunks decodeTxs new batchIndex vLog args = Some (Ok entry, cs)"
  shows "\<exists>versionedHash blob c.
           fetchTxBlobHash (l1Client env) vLog = Inr versionedHash \<and>
           GetBlobByVersionedHash (blobClient env) versionedHash = Inr blob \<and>
           BlobToCommitment (kzg env) blob = Inr c \<and>
           CalcBlobHashV1 (kzg env) c = versionedHash"
  using assms by (auto simp: blobDecoder_def split: sum.splits if_splits)

lemma NewCommitBatchDAV1_mismatch:
  assumes "codecv1_DecodeDAChunksRawTx (codec env) chunks = Inr decodedChunks"
      and "fetchTxBlobHash (l1Client env) vLog = Inr versionedHash"
      and "GetHeaderByNumber (l1Client env) (BlockNumber vLog) = Inr headerTime"
      and "GetBlobByVersionedHashAndBlockTime (blobClient env) versionedHash headerTime = Inr (Some blob)"
      and "BlobToCommitment (kzg env) blob = Inr c"
      and "CalcBlobHashV1 (kzg env) c \<noteq> versionedHash"
  shows "NewCommitBatchDAV1WithBlobDecodeFunc env newV0 vLog version batchIndex parentBatchHeader
           chunks skippedL1MessageBitmap decodeTxsFromBlobFunc =
           (Err (BlobVersionedHashMismatch versionedHash (CalcBlobHashV1 (kzg env) c)),
             [Call_DecodeDAChunksRawTx chunks, Call_fetchTxBlobHash vLog,
              Call_GetHeaderByNumber (BlockNumber vLog),
              Call_GetBlobByVersionedHashAndBlockTime versionedHash headerTime,
              Call_BlobToCommitment blob])"
  using assms by (simp add: NewCommitBatchDAV1WithBlobDecodeFunc_def)

lemma NewCommitBatchDAV1_Ok_hash:
  assumes "NewCommitBatchDAV1WithBlobDecodeFunc env newV0 vLog version batchIndex parentBatchHeader
           chunks skippedL1MessageBitmap decodeTxsFromBlobFunc = (Ok v1, cs)"
  shows "\<exists>versionedHash headerTime blob c.
           fetchTxBlobHash (l1Client env) vLog = Inr versionedHash \<and>
           GetHeaderByNumber (l1Client env) (BlockNumber vLog) = Inr headerTime \<and>
           GetBlobByVersionedHashAndBlockTime (blobClient env) versionedHash headerTime = Inr (Some blob) \<and>
           BlobToCommitment (kzg env) blob = Inr c \<and>
           CalcBlobHashV1 (kzg env) c = versionedHash"
  using assms
  by (auto simp: NewCommitBatchDAV1WithBlobDecodeFunc_def split: sum.splits if_splits option.splits)

text \<open>
  Claim C2. The decoders of versions 1 and 2, and the later version-1 decoder of
  \<^verbatim>\<open>da/commitV1.go\<close>, recompute the versioned hash from the commitment of the fetched
  blob and compare it with the hash fetched for the transaction. When the two differ
  the decoder returns the mismatch error and no entry, and the last call it made is
  \<^verbatim>\<open>BlobToCommitment\<close>: the transactions of the blob are never decoded. When a decoder
  returns an entry, the two hashes were equal.
\<close>

theorem blob_authenticity:
  "(codecv1_DecodeDAChunksRawTx (codec env) (Chunks args) = Inr chunks \<and>
    fetchTxBlobHash (l1Client env) vLog = Inr versionedHash \<and>
    GetBlobByVersionedHash (blobClient env) versionedHash = Inr blob \<and>
    BlobToCommitment (kzg env) blob = Inr c \<and>
    CalcBlobHashV1 (kzg env) c \<noteq> versionedHash \<longrightarrow>
      decodeDAV1 env batchIndex vLog args =
        Some (Err (BlobVersionedHashMismatch versionedHash (CalcBlobHashV1 (kzg env) c)),
          [Call_DecodeDAChunksRawTx (Chunks args), Call_fetchTxBlobHash vLog,
           Call_GetBlobByVersionedHash versionedHash, Call_BlobToCommitment blob])) \<and>
   (codecv2_DecodeDAChunksRawTx (codec env) (Chunks args) = Inr chunks \<and>
    fetchTxBlobHash (l1Client env) vLog = Inr versionedHash \<and>
    GetBlobByVersionedHash (blobClient env) versionedHash = Inr blob \<and>
    BlobToCommitment (kzg env) blob = Inr c \<and>
    CalcBlobHashV1 (kzg env) c \<noteq> versionedHash \<longrightarrow>
      decodeDAV2 env batchIndex vLog args =
        Some (Err (BlobVersionedHashMismatch versionedHash (CalcBlobHashV1 (kzg env) c)),
          [Call_DecodeDAChunksRawTx (Chunks args), Call_fetchTxBlobHash vLog,
           Call_GetBlobByVersionedHash versionedHash, Call_BlobToCommitment blob])) \<and>
   (codecv1_DecodeDAChunksRawTx (codec env) (Chunks args) = Inr chunks \<and>
    fetchTxBlobHash (l1Client env) vLog = Inr versionedHash \<and>
    GetHeaderByNumber (l1Client env) (BlockNumber vLog) = Inr headerTime \<and>
    GetBlobByVersionedHashAndBlockTime (blobClient env) versionedHash headerTime = Inr (Some blob) \<and>
    BlobToCommitment (kzg env) blob = Inr c \<and>
    CalcBlobHashV1 (kzg env) c \<noteq> versionedHash \<longrightarrow>
      NewCommitBatchDAV1WithBlobDecodeFunc env newBase vLog (Version args) batchIndex
          (ParentBatchHeader args) (Chunks args) (SkippedL1MessageBitmap args) decodeTxsFromBlobFunc =
        (Err (BlobVersionedHashMismatch versionedHash (CalcBlobHashV1 (kzg env) c)),
          [Call_DecodeDAChunksRawTx (Chunks args), Call_fetchTxBlobHash vLog,
           Call_GetHeaderByNumber (BlockNumber vLog),
           Call_GetBlobByVersionedHashAndBlockTime versionedHash headerTime,
           Call_BlobToCommitment blob])) \<and>
   (decodeDAV1 env batchIndex vLog args = Some (Ok entry, cs) \<or>
    decodeDAV2 env batchIndex vLog args = Some (Ok entry, cs) \<longrightarrow>
      (\<exists>h b k. fetchTxBlobHash (l1Client env) vLog = Inr h \<and>
               GetBlobByVersionedHash (blobClient env) h = Inr b \<and>
               BlobToCommitment (kzg env) b = Inr k \<and> CalcBlobHashV1 (kzg env) k = h)) \<and>
   (NewCommitBatchDAV1WithBlobDecodeFunc env newBase vLog (Version args) batchIndex
        (ParentBatchHeader args) (Chunks args) (SkippedL1MessageBitmap args) decodeTxsFromBlobFunc =
      (Ok v1, cs') \<longrightarrow>
      (\<exists>h t b k. fetchTxBlobHash (l1Client env) vLog = Inr h \<and>
                 GetHeaderByNumber (l1Client env) (BlockNumber vLog) = Inr t \<and>
                 GetBlobByVersionedHashAndBlockTime (blobClient env) h t = Inr (Some b) \<and>
                 BlobToCommitment (kzg env) b = Inr k \<and> CalcBlobHashV1 (kzg env) k = h))"
proof (intro conjI impI)
  assume "codecv1_DecodeDAChunksRawTx (codec env) (Chunks args) = Inr chunks \<and>
    fetchTxBlobHash (l1Client env) vLog = Inr versionedHash \<and>
    GetBlobByVersionedHash (blobClient env) versionedHash = Inr blob \<and>
    BlobToCommitment (kzg env) blob = Inr c \<and>
    CalcBlobHashV1 (kzg env) c \<noteq> versionedHash"
  then show "decodeDAV1 env batchIndex vLog args =
        Some (Err (BlobVersionedHashMismatch versionedHash (CalcBlobHashV1 (kzg env) c)),
          [Call_DecodeDAChunksRawTx (Chunks args), Call_fetchTxBlobHash vLog,
           Call_GetBlobByVersionedHash versionedHash, Call_BlobToCommitment blob])"
    unfolding decodeDAV1_def by (intro blobDecoder_mismatch) auto
next
  assume "codecv2_DecodeDAChunksRawTx (codec env) (Chunks args) = Inr chunks \<and>
    fetchTxBlobHash (l1Client env) vLog = Inr versionedHash \<and>
    GetBlobByVersionedHash (blobClient env) versionedHash = Inr blob \<and>
    BlobToCommitment (kzg env) blob = Inr c \<and>
    CalcBlobHashV1 (kzg env) c \<noteq> versionedHash"
  then show "decodeDAV2 env batchIndex vLog args =
        Some (Err (BlobVersionedHashMismatch versionedHash (CalcBlobHashV1 (kzg env) c)),
          [Call_DecodeDAChunksRawTx (Chunks args), Call_fetchTxBlobHash vLog,
           Call_GetBlobByVersionedHash versionedHash, Call_BlobToCommitment blob])"
    unfolding decodeDAV2_def by (intro blobDecoder_mismatch) auto
next
  assume "codecv1_DecodeDAChunksRawTx (codec env) (Chunks args) = Inr chunks \<and>
    fetchTxBlobHash (l1Client env) vLog = Inr versionedHash \<and>
    GetHeaderByNumber (l1Client env) (BlockNumber vLog) = Inr headerTime \<and>
    GetBlobByVersionedHashAndBlockTime (blobClient env) versionedHash headerTime = Inr (Some blob) \<and>
    BlobToCommitment (kzg env) blob = Inr c \<and>
    CalcBlobHashV1 (kzg env) c \<noteq> versionedHash"
  then show "NewCommitBatchDAV1WithBlobDecodeFunc env newBase vLog (Version args) batchIndex
          (ParentBatchHeader args) (Chunks args) (SkippedL1MessageBitmap args) decodeTxsFromBlobFunc =
        (Err (BlobVersionedHashMismatch versionedHash (CalcBlobHashV1 (kzg env) c)),
          [Call_DecodeDAChunksRawTx (Chunks args), Call_fetchTxBlobHash vLog,
           Call_GetHeaderByNumber (BlockNumber vLog),
           Call_GetBlobByVersionedHashAndBlockTime versionedHash headerTime,
           Call_BlobToCommitment blob])"
    by (intro NewCommitBatchDAV1_mismatch) auto
next
  assume "decodeDAV1 env batchIndex vLog args = Some (Ok entry, cs) \<or>
    decodeDAV2 env batchIndex vLog args = Some (Ok entry, cs)"
  then show "\<exists>h b k. fetchTxBlobHash (l1Client env) vLog = Inr h \<and>
               GetBlobByVersionedHash (blobClient env) h = Inr b \<and>
               BlobToCommitment (kzg env) b = Inr k \<and> CalcBlobHashV1 (kzg env) k = h"
    unfolding decodeDAV1_def decodeDAV2_def using blobDecoder_Ok_hash by blast
next
  assume "NewCommitBatchDAV1WithBlobDecodeFunc env newBase vLog (Version args) batchIndex
        (ParentBatchHeader args) (Chunks args) (SkippedL1MessageBitmap args) decodeTxsFromBlobFunc =
      (Ok v1, cs')"
  then show "\<exists>h t b k. fetchTxBlobHash (l1Client env) vLog = Inr h \<and>
                 GetHeaderByNumber (l1Client env) (BlockNumber vLog) = Inr t \<and>
                 GetBlobByVersionedHashAndBlockTime (blobClient env) h t = Inr (Some b) \<and>
                 BlobToCommitment (kzg env) b = Inr k \<and> CalcBlobHashV1 (kzg env) k = h"
    by (rule NewCommitBatchDAV1_Ok_hash)
qed

text \<open>
  A blob provider that answers with the blob \<open>[6, 6]\<close>, whose hash is 78 and not the
  transaction's 77, and one that answers with the blob \<open>[9, 9]\<close> of hash 77.
\<close>

theorem blob_authenticity_witness:
  "decodeDAV1 (ex_env 1000 [6, 6]) 5 ex_commitLog (ex_args 1) =
     Some (Err (BlobVersionedHashMismatch 77 78),
       [Call_DecodeDAChunksRawTx [[2]], Call_fetchTxBlobHash ex_commitLog,
        Call_GetBlobByVersionedHash 77, Call_BlobToCommitment [6, 6]]) \<and>
   decodeDAV2 (ex_env 1000 [6, 6]) 5 ex_commitLog (ex_args 2) =
     Some (Err (BlobVersionedHashMismatch 77 78),
       [Call_DecodeDAChunksRawTx [[2]], Call_fetchTxBlobHash ex_commitLog,
        Call_GetBlobByVersionedHash 77, Call_BlobToCommitment [6, 6]]) \<and>
   NewCommitBatchDAV1WithBlobDecodeFunc (ex_env 1000 [6, 6]) (\<lambda>v i h c b n. Inr ()) ex_commitLog
       1 5 ex_header [[2]] ex_bitmap (\<lambda>blob chunks. Inr chunks) =
     (Err (BlobVersionedHashMismatch 77 78),
       [Call_DecodeDAChunksRawTx [[2]], Call_fetchTxBlobHash ex_commitLog,
        Call_GetHeaderByNumber 10, Call_GetBlobByVersionedHashAndBlockTime 77 1700000000,
        Call_BlobToCommitment [6, 6]]) \<and>
   (\<exists>h b k. fetchTxBlobHash (l1Client (ex_env 1000 [9, 9])) ex_commitLog = Inr h \<and>
            GetBlobByVersionedHash (blobClient (ex_env 1000 [9, 9])) h = Inr b \<and>
            BlobToCommitment (kzg (ex_env 1000 [9, 9])) b = Inr k \<and>
            CalcBlobHashV1 (kzg (ex_env 1000 [9, 9])) k = h) \<and>
   (\<exists>h t b k. fetchTxBlobHash (l1Client (ex_env 1000 [9, 9])) ex_commitLog = Inr h \<and>
              GetHeaderByNumber (l1Client (ex_env 1000 [9, 9])) (BlockNumber ex_commitLog) = Inr t \<and>
              GetBlobByVersionedHashAndBlockTime (blobClient (ex_env 1000 [9, 9])) h t = Inr (Some b) \<and>
              BlobToCommitment (kzg (ex_env 1000 [9, 9])) b = Inr k \<and>
              CalcBlobHashV1 (kzg (ex_env 1000 [9, 9])) k = h)"
proof -
  let ?bad = "ex_env 1000 [6, 6] :: nat env"
  let ?good = "ex_env 1000 [9, 9] :: nat env"
  let ?chunks = "[\<lparr>Blocks = [\<lparr>NumTransactions = 0, NumL1Messages = 2\<rparr>], Transactions = []\<rparr>]"
  have pre1: "codecv1_DecodeDAChunksRawTx (codec ?bad) (Chunks (ex_args 1)) = Inr ?chunks \<and>
      fetchTxBlobHash (l1Client ?bad) ex_commitLog = Inr 77 \<and>
      GetBlobByVersionedHash (blobClient ?bad) 77 = Inr [6, 6] \<and>
      BlobToCommitment (kzg ?bad) [6, 6] = Inr [6, 6] \<and>
      CalcBlobHashV1 (kzg ?bad) [6, 6] \<noteq> 77"
    by (simp add: ex_defs)
  have pre2: "codecv2_DecodeDAChunksRawTx (codec ?bad) (Chunks (ex_args 2)) = Inr ?chunks \<and>
      fetchTxBlobHash (l1Client ?bad) ex_commitLog = Inr 77 \<and>
      GetBlobByVersionedHash (blobClient ?bad) 77 = Inr [6, 6] \<and>
      BlobToCommitment (kzg ?bad) [6, 6] = Inr [6, 6] \<and>
      CalcBlobHashV1 (kzg ?bad) [6, 6] \<noteq> 77"
    by (simp add: ex_defs)
  have pre3: "codecv1_DecodeDAChunksRawTx (codec ?bad) (Chunks (ex_args 1)) = Inr ?chunks \<and>
      fetchTxBlobHash (l1Client ?bad) ex_commitLog = Inr 77 \<and>
      GetHeaderByNumber (l1Client ?bad) (BlockNumber ex_commitLog) = Inr 1700000000 \<and>
      GetBlobByVersionedHashAndBlockTime (blobClient ?bad) 77 1700000000 = Inr (Some [6, 6]) \<and>
      BlobToCommitment (kzg ?bad) [6, 6] = Inr [6, 6] \<and>
      CalcBlobHashV1 (kzg ?bad) [6, 6] \<noteq> 77"
    by (simp add: ex_defs)
  have hash: "CalcBlobHashV1 (kzg ?bad) [6, 6] = 78"
    by (simp add: ex_defs)
  have ok1: "decodeDAV1 ?good 5 ex_commitLog (ex_args 1) =
      Some (Ok (Commit \<lparr>cb_DaType = CommitBatchV1, cb_Version = 1, cb_BatchIndex = 5,
                  cb_ParentTotalL1MessagePopped = 3, cb_SkippedL1MessageBitmap = ex_bitmap,
                  cb_Chunks = ?chunks, cb_L1Txs = [4, 5], cb_L1BlockNumber = 10\<rparr>),
        [Call_DecodeDAChunksRawTx [[2]], Call_fetchTxBlobHash ex_commitLog,
         Call_GetBlobByVersionedHash 77, Call_BlobToCommitment [9, 9],
         Call_DecodeTxsFromBlob [9, 9], Call_DecodeBitmap ex_bitmap 2,
         Call_ReadL1Message 4, Call_ReadL1Message 5])"
    by (simp add: model_defs ex_defs l1MessagesV1_numeral skipSkipped.simps)
  have ok3: "NewCommitBatchDAV1WithBlobDecodeFunc ?good (\<lambda>v i h c b n. Inr ()) ex_commitLog
       (Version (ex_args 1)) 5 (ParentBatchHeader (ex_args 1)) (Chunks (ex_args 1))
       (SkippedL1MessageBitmap (ex_args 1)) (\<lambda>blob chunks. Inr chunks) =
     (Ok (),
       [Call_DecodeDAChunksRawTx [[2]], Call_fetchTxBlobHash ex_commitLog,
        Call_GetHeaderByNumber 10, Call_GetBlobByVersionedHashAndBlockTime 77 1700000000,
        Call_BlobToCommitment [9, 9], Call_DecodeTxsFromBlob [9, 9],
        Call_NewCommitBatchDAV0WithChunks])"
    by (simp add: NewCommitBatchDAV1WithBlobDecodeFunc_def ex_defs)
  note bad1 = blob_authenticity [where env = ?bad and args = "ex_args 1" and vLog = ex_commitLog
      and batchIndex = 5 and newBase = "\<lambda>v i h c b n. Inr ()" and decodeTxsFromBlobFunc = "\<lambda>blob chunks. Inr chunks"]
  note bad2 = blob_authenticity [where env = ?bad and args = "ex_args 2" and vLog = ex_commitLog
      and batchIndex = 5]
  note good = blob_authenticity [where env = ?good and args = "ex_args 1" and vLog = ex_commitLog
      and batchIndex = 5 and newBase = "\<lambda>v i h c b n. Inr ()" and decodeTxsFromBlobFunc = "\<lambda>blob chunks. Inr chunks"]
  have c1: "decodeDAV1 ?bad 5 ex_commitLog (ex_args 1) =
     Some (Err (BlobVersionedHashMismatch 77 78),
       [Call_DecodeDAChunksRawTx [[2]], Call_fetchTxBlobHash ex_commitLog,
        Call_GetBlobByVersionedHash 77, Call_BlobToCommitment [6, 6]])"
    using bad1 [THEN conjunct1, rule_format, OF pre1] hash by (simp add: ex_args_def)
  have c2: "decodeDAV2 ?bad 5 ex_commitLog (ex_args 2) =
     Some (Err (BlobVersionedHashMismatch 77 78),
       [Call_DecodeDAChunksRawTx [[2]], Call_fetchTxBlobHash ex_commitLog,
        Call_GetBlobByVersionedHash 77, Call_BlobToCommitment [6, 6]])"
    using bad2 [THEN conjunct2, THEN conjunct1, rule_format, OF pre2] hash by (simp add: ex_args_def)
  have c3: "NewCommitBatchDAV1WithBlobDecodeFunc ?bad (\<lambda>v i h c b n. Inr ()) ex_commitLog
       1 5 ex_header [[2]] ex_bitmap (\<lambda>blob chunks. Inr chunks) =
     (Err (BlobVersionedHashMismatch 77 78),
       [Call_DecodeDAChunksRawTx [[2]], Call_fetchTxBlobHash ex_commitLog,
        Call_GetHeaderByNumber 10, Call_GetBlobByVersionedHashAndBlockTime 77 1700000000,
        Call_BlobToCommitment [6, 6]])"
    using bad1 [THEN conjunct2, THEN conjunct2, THEN conjunct1, rule_format, OF pre3] hash
    by (simp add: ex_args_def ex_commitLog_def)
  have c4: "\<exists>h b k. fetchTxBlobHash (l1Client ?good) ex_commitLog = Inr h \<and>
            GetBlobByVersionedHash (blobClient ?good) h = Inr b \<and>
            BlobToCommitment (kzg ?good) b = Inr k \<and> CalcBlobHashV1 (kzg ?good) k = h"
    using good [THEN conjunct2, THEN conjunct2, THEN conjunct2, THEN conjunct1, rule_format,
        OF disjI1, OF ok1] .
  have c5: "\<exists>h t b k. fetchTxBlobHash (l1Client ?good) ex_commitLog = Inr h \<and>
              GetHeaderByNumber (l1Client ?good) (BlockNumber ex_commitLog) = Inr t \<and>
              GetBlobByVersionedHashAndBlockTime (blobClient ?good) h t = Inr (Some b) \<and>
              BlobToCommitment (kzg ?good) b = Inr k \<and> CalcBlobHashV1 (kzg ?good) k = h"
    using good [THEN conjunct2, THEN conjunct2, THEN conjunct2, THEN conjunct2, rule_format, OF ok3] .
  from c1 c2 c3 c4 c5 show ?thesis by blast
qed

section \<open>The dispatcher keeps the logs' order\<close>

lemma processLogs_entries:
  "processLogs env ds logs acc = Some (Ok da, cs) \<Longrightarrow>
     \<exists>es. da = acc @ es \<and> list_all2 (\<lambda>vLog e. \<exists>cs'. logToDAEntry env ds vLog = Some (Ok e, cs')) logs es"
proof (induction logs arbitrary: acc cs)
  case Nil
  then show ?case by simp
next
  case (Cons vLog logs)
  from Cons.prems obtain e cs1 r where
    e: "logToDAEntry env ds vLog = Some (Ok e, cs1)" and
    r: "processLogs env ds logs (acc @ [e]) = Some r" and
    da: "after cs1 r = (Ok da, cs)"
    by (auto split: option.splits result.splits prod.splits)
  from da have "r = (Ok da, snd r)"
    by (cases r) (simp add: after_def)
  with r have "processLogs env ds logs (acc @ [e]) = Some (Ok da, snd r)" by simp
  from Cons.IH [OF this] obtain es where
    es: "da = (acc @ [e]) @ es"
      "list_all2 (\<lambda>vLog e. \<exists>cs'. logToDAEntry env ds vLog = Some (Ok e, cs')) logs es"
    by blast
  show ?case
  proof (intro exI conjI)
    show "da = acc @ (e # es)" using es(1) by simp
    show "list_all2 (\<lambda>vLog e. \<exists>cs'. logToDAEntry env ds vLog = Some (Ok e, cs')) (vLog # logs) (e # es)"
      using e es(2) by auto
  qed
qed

lemma reconcile_Ok:
  assumes "reconcile env loop new batchIndex vLog args chunks = Some (Ok e, cs)"
  shows "\<exists>parent l1Txs. e = new (Version args) batchIndex parent (SkippedL1MessageBitmap args)
           chunks l1Txs (BlockNumber vLog)"
  using assms
  by (auto simp: reconcile_def after_def split: result.splits sum.splits option.splits prod.splits)

lemma decodeDAV0_Ok:
  assumes "decodeDAV0 env batchIndex vLog args = Some (Ok e, cs)"
  shows "\<exists>f. e = Commit f \<and> cb_BatchIndex f = batchIndex \<and> cb_L1BlockNumber f = BlockNumber vLog"
proof -
  from assms obtain chunks cs' where
    "reconcile env (\<lambda>bm parent n cur l1Txs. Some (l1MessagesV0 env bm parent n cur l1Txs))
       NewCommitBatchDaV0 batchIndex vLog args chunks = Some (Ok e, cs')"
    by (auto simp: decodeDAV0_def after_def split: sum.splits)
  from reconcile_Ok [OF this] show ?thesis
    by (auto simp: NewCommitBatchDaV0_def)
qed

lemma blobDecoder_Ok:
  assumes "blobDecoder env decodeChunks decodeTxs new batchIndex vLog args = Some (Ok e, cs)"
  shows "\<exists>parent chunks l1Txs. e = new (Version args) batchIndex parent (SkippedL1MessageBitmap args)
           chunks l1Txs (BlockNumber vLog)"
proof -
  from assms obtain chunks cs' where
    "reconcile env (l1MessagesV1 env) new batchIndex vLog args chunks = Some (Ok e, cs')"
    by (auto simp: blobDecoder_def after_def split: sum.splits if_splits)
  from reconcile_Ok [OF this] show ?thesis by blast
qed

lemma getCommitBatchDa_Ok:
  assumes "getCommitBatchDa env batchIndex vLog = Some (Ok e, cs)"
  shows "\<exists>f. e = Commit f \<and> cb_BatchIndex f = batchIndex"
proof (cases "batchIndex = 0")
  case True
  with assms show ?thesis
    by (auto simp: getCommitBatchDa_def NewCommitBatchDaV0_def)
next
  case False
  with assms consider
    args cs' where "decodeDAV0 env batchIndex vLog args = Some (Ok e, cs')"
  | args cs' where "decodeDAV1 env batchIndex vLog args = Some (Ok e, cs')"
  | args cs' where "decodeDAV2 env batchIndex vLog args = Some (Ok e, cs')"
    by (auto simp: getCommitBatchDa_def after_def split: sum.splits if_splits)
  then show ?thesis
  proof cases
    case 1
    from decodeDAV0_Ok [OF this] show ?thesis by blast
  next
    case 2
    from blobDecoder_Ok [OF this [unfolded decodeDAV1_def]] show ?thesis
      by (auto simp: NewCommitBatchDaV1_def)
  next
    case 3
    from blobDecoder_Ok [OF this [unfolded decodeDAV2_def]] show ?thesis
      by (auto simp: NewCommitBatchDaV2_def)
  qed
qed

lemma logToDAEntry_kind:
  assumes "logToDAEntry env ds vLog = Some (Ok e, cs)"
  shows "entryOfLog env ds vLog e"
proof (cases "Topics vLog")
  case Nil
  with assms show ?thesis by (simp add: logToDAEntry_def)
next
  case (Cons topic0 rest)
  show ?thesis
  proof (cases "topic0 = l1CommitBatchEventSignature ds")
    case True
    with assms Cons obtain batchIndex cs' where
      idx: "UnpackLog (scrollChainABI env) ''CommitBatch'' vLog = Inr batchIndex" and
      da: "getCommitBatchDa env batchIndex vLog = Some (Ok e, cs')"
      by (auto simp: logToDAEntry_def split: sum.splits option.splits result.splits prod.splits)
    from getCommitBatchDa_Ok [OF da] obtain f where "e = Commit f" "cb_BatchIndex f = batchIndex"
      by blast
    with True Cons idx show ?thesis by (simp add: entryOfLog_def)
  next
    case False
    with assms Cons show ?thesis
      by (auto simp: logToDAEntry_def entryOfLog_def NewRevertBatchDA_def NewFinalizeBatchDA_def
          split: sum.splits if_splits)
  qed
qed

text \<open>
  Claim C7. When \<^verbatim>\<open>processLogsToDA\<close> returns a DA sequence, the sequence has one
  entry for each log; the entry at each position is the one the loop's body makes of
  the log at that position; and it is of that log's kind, with the batch index of that
  log's event. No log is skipped and no entry is moved.
\<close>

theorem logs_to_entries_in_order:
  assumes "processLogsToDA env ds logs = Some (Ok da, cs)"
  shows "length da = length logs \<and>
         list_all2 (\<lambda>vLog entry. \<exists>cs'. logToDAEntry env ds vLog = Some (Ok entry, cs')) logs da \<and>
         list_all2 (entryOfLog env ds) logs da"
proof -
  from processLogs_entries [of env ds logs "[]" da cs] assms
  have all: "list_all2 (\<lambda>vLog entry. \<exists>cs'. logToDAEntry env ds vLog = Some (Ok entry, cs')) logs da"
    by (simp add: processLogsToDA_def)
  then have len: "length logs = length da" by (rule list_all2_lengthD)
  from all have "list_all2 (entryOfLog env ds) logs da"
    by (rule list_all2_mono) (auto intro: logToDAEntry_kind)
  with all len show ?thesis by simp
qed

theorem logs_to_entries_in_order_witness:
  "length [Commit \<lparr>cb_DaType = CommitBatchV0, cb_Version = 0, cb_BatchIndex = 5,
                  cb_ParentTotalL1MessagePopped = 3, cb_SkippedL1MessageBitmap = ex_bitmap,
                  cb_Chunks = [\<lparr>Blocks = [\<lparr>NumTransactions = 0, NumL1Messages = 2\<rparr>], Transactions = []\<rparr>],
                  cb_L1Txs = [4::nat], cb_L1BlockNumber = 10\<rparr>,
           Revert \<lparr>rv_DaType = RevertBatch, rv_BatchIndex = 5, rv_L1BlockNumber = 0\<rparr>,
           Finalize \<lparr>fn_DaType = FinalizeBatch, fn_BatchIndex = 4, fn_L1BlockNumber = 0\<rparr>] =
     length [ex_commitLog, ex_revertLog, ex_finalizeLog] \<and>
   list_all2 (\<lambda>vLog entry. \<exists>cs'. logToDAEntry (ex_env 1000 [9, 9]) (ex_source 0) vLog = Some (Ok entry, cs'))
     [ex_commitLog, ex_revertLog, ex_finalizeLog]
     [Commit \<lparr>cb_DaType = CommitBatchV0, cb_Version = 0, cb_BatchIndex = 5,
               cb_ParentTotalL1MessagePopped = 3, cb_SkippedL1MessageBitmap = ex_bitmap,
               cb_Chunks = [\<lparr>Blocks = [\<lparr>NumTransactions = 0, NumL1Messages = 2\<rparr>], Transactions = []\<rparr>],
               cb_L1Txs = [4::nat], cb_L1BlockNumber = 10\<rparr>,
      Revert \<lparr>rv_DaType = RevertBatch, rv_BatchIndex = 5, rv_L1BlockNumber = 0\<rparr>,
      Finalize \<lparr>fn_DaType = FinalizeBatch, fn_BatchIndex = 4, fn_L1BlockNumber = 0\<rparr>] \<and>
   list_all2 (entryOfLog (ex_env 1000 [9, 9]) (ex_source 0))
     [ex_commitLog, ex_revertLog, ex_finalizeLog]
     [Commit \<lparr>cb_DaType = CommitBatchV0, cb_Version = 0, cb_BatchIndex = 5,
               cb_ParentTotalL1MessagePopped = 3, cb_SkippedL1MessageBitmap = ex_bitmap,
               cb_Chunks = [\<lparr>Blocks = [\<lparr>NumTransactions = 0, NumL1Messages = 2\<rparr>], Transactions = []\<rparr>],
               cb_L1Txs = [4::nat], cb_L1BlockNumber = 10\<rparr>,
      Revert \<lparr>rv_DaType = RevertBatch, rv_BatchIndex = 5, rv_L1BlockNumber = 0\<rparr>,
      Finalize \<lparr>fn_DaType = FinalizeBatch, fn_BatchIndex = 4, fn_L1BlockNumber = 0\<rparr>]"
  by (rule logs_to_entries_in_order [OF ex_processLogs])

section \<open>The cursor of the range-advancing source\<close>

lemma fetchTo_min: "fetchTo cursor fin = min (cursor + callDataBlobSourceFetchBlockRange) fin"
  by (auto simp add: fetchTo_def Let_def min_def)

lemma fetchTo_le_finalized: "fetchTo cursor fin \<le> fin"
  by (simp add: fetchTo_min)

lemma fetchTo_unat:
  assumes "unat cursor + 500 < 2 ^ 64"
  shows "unat (fetchTo cursor fin) = min (unat cursor + 500) (unat fin)"
proof -
  have "unat (cursor + 500) = unat cursor + 500"
    using assms by (simp add: unat_word_ariths)
  then show ?thesis
    by (auto simp add: fetchTo_def Let_def callDataBlobSourceFetchBlockRange_def word_less_nat_alt min_def)
qed

lemma finalized_below_cursor: "fin < cursor \<Longrightarrow> fetchTo cursor fin < cursor"
  using fetchTo_le_finalized [of cursor fin] by simp

lemma word_less_succ:
  fixes x :: uint64
  assumes "x \<noteq> - 1"
  shows "x < x + 1"
  using assms inc_less_eq_self_iff_eq [of x] by auto

lemma fetchTo_not_max:
  assumes "fin \<noteq> - 1"
  shows "fetchTo cursor fin \<noteq> - 1"
proof
  assume "fetchTo cursor fin = - 1"
  then have "- 1 \<le> fin" using fetchTo_le_finalized [of cursor fin] by simp
  then have "fin = - 1" by (simp add: word_order.extremum_unique)
  with assms show False by simp
qed

lemma cursor_advances:
  assumes "cursor \<le> fetchTo cursor fin" and "fin \<noteq> - 1"
  shows "cursor < fetchTo cursor fin + 1"
  using assms word_less_succ [OF fetchTo_not_max [OF assms(2), of cursor]] by simp

lemma cursor_not_next:
  assumes "cursor \<le> fetchTo cursor fin"
  shows "cursor \<noteq> fetchTo cursor fin + 1"
proof (cases "fetchTo cursor fin = - 1")
  case True
  show ?thesis
  proof
    assume eq: "cursor = fetchTo cursor fin + 1"
    with True have c0: "cursor = 0" by simp
    have "fetchTo 0 fin \<le> 500"
      by (simp add: fetchTo_min callDataBlobSourceFetchBlockRange_def)
    with True c0 show False by (simp add: word_order.extremum_unique)
  qed
next
  case False
  then have "fetchTo cursor fin < fetchTo cursor fin + 1" by (rule word_less_succ)
  with assms show ?thesis by auto
qed

lemma NextData_failure_unchanged:
  assumes "NextData env ds = Some (r, ds', cs)" and "\<forall>da. r \<noteq> Ok da"
  shows "ds' = ds"
  using assms
  by (auto simp: NextData_def split: sum.splits if_splits option.splits result.splits prod.splits)

lemma NextData_Ok:
  assumes "NextData env ds = Some (Ok da, ds', cs)"
  shows "\<exists>fin logs cs'.
           getFinalizedBlockNumber (l1Client env) = Inr fin \<and>
           l1height ds \<le> fetchTo (l1height ds) fin \<and>
           fetchRollupEventsInRange (l1Client env) (l1height ds) (fetchTo (l1height ds) fin) = Inr logs \<and>
           processLogsToDA env ds logs = Some (Ok da, cs') \<and>
           ds' = ds\<lparr>l1height := fetchTo (l1height ds) fin + 1\<rparr> \<and>
           cs = Call_getFinalizedBlockNumber
                # Call_fetchRollupEventsInRange (l1height ds) (fetchTo (l1height ds) fin) # cs'"
  using assms
  by (auto simp: NextData_def split: sum.splits if_splits option.splits result.splits prod.splits)

lemma NextData_first_call:
  assumes "NextData env ds = Some (r, ds', cs)"
  shows "\<exists>cs'. cs = Call_getFinalizedBlockNumber # cs'"
  using assms
  by (auto simp: NextData_def split: sum.splits if_splits option.splits result.splits prod.splits)

lemma NextData_exhausted:
  assumes "getFinalizedBlockNumber (l1Client env) = Inr fin" and "fin < l1height ds"
  shows "NextData env ds = Some (Err SourceExhausted, ds, [Call_getFinalizedBlockNumber])"
  using assms finalized_below_cursor [OF assms(2)] by (simp add: NextData_def)

lemma NextData_Ok_increases:
  assumes "NextData env ds = Some (Ok da, ds', cs)"
      and "getFinalizedBlockNumber (l1Client env) \<noteq> Inr (- 1)"
  shows "l1height ds < l1height ds'"
proof -
  from NextData_Ok [OF assms(1)] obtain fin where
    fin: "getFinalizedBlockNumber (l1Client env) = Inr fin"
      "l1height ds \<le> fetchTo (l1height ds) fin"
      "ds' = ds\<lparr>l1height := fetchTo (l1height ds) fin + 1\<rparr>"
    by blast
  with assms(2) have "fin \<noteq> - 1" by auto
  from cursor_advances [OF fin(2) this] fin(3) show ?thesis by simp
qed

lemma NextDataSteps_increasing:
  assumes "NextDataSteps envs ds = Some hs"
      and "\<forall>env \<in> set envs. getFinalizedBlockNumber (l1Client env) \<noteq> Inr (- 1)"
  shows "sorted_wrt (<) (l1height ds # hs)"
  using assms
proof (induction envs arbitrary: ds hs)
  case Nil
  then show ?case by simp
next
  case (Cons env envs)
  from Cons.prems(1) obtain da ds' cs hs' where
    step: "NextData env ds = Some (Ok da, ds', cs)" and
    rest: "NextDataSteps envs ds' = Some hs'" and
    hs: "hs = l1height ds' # hs'"
    by (auto split: option.splits result.splits prod.splits)
  from Cons.prems(2) have "getFinalizedBlockNumber (l1Client env) \<noteq> Inr (- 1)" by simp
  from NextData_Ok_increases [OF step this] have lt: "l1height ds < l1height ds'" .
  from Cons.IH [OF rest] Cons.prems(2) have sorted: "sorted_wrt (<) (l1height ds' # hs')" by simp
  from lt sorted show ?case unfolding hs by (auto simp: sorted_wrt2 [OF transp_on_less])
qed

lemma ex_NextData_501:
  "NextData (ex_env 1000 [9, 9] :: nat env) (ex_source 501) =
     Some (Ok [], ex_source 1001,
       [Call_getFinalizedBlockNumber, Call_fetchRollupEventsInRange 501 1000])"
  by (simp add: run_defs model_defs ex_defs)

lemma ex_NextData_fetch_fails:
  "NextData ((ex_env 1000 [9, 9] :: nat env)
       \<lparr>l1Client := (ex_l1Client 1000)\<lparr>fetchRollupEventsInRange := (\<lambda>from to. Inl (Other ''timeout''))\<rparr>\<rparr>)
     (ex_source 0) =
     Some (Err (CannotGetEvents 0 (Other ''timeout'')), ex_source 0,
       [Call_getFinalizedBlockNumber, Call_fetchRollupEventsInRange 0 500])"
  by (simp add: run_defs model_defs ex_defs)

lemma ex_NextDataSteps:
  "NextDataSteps [ex_env 1000 [9, 9] :: nat env, ex_env 1000 [9, 9]] (ex_source 0) = Some [501, 1001]"
  by (simp add: ex_NextData ex_NextData_501) (simp add: ex_source_def)

lemma ex_NextData_exhausted:
  "NextData (ex_env 1000 [9, 9] :: nat env) (ex_source 2000) =
     Some (Err SourceExhausted, ex_source 2000, [Call_getFinalizedBlockNumber])"
  by (simp add: run_defs model_defs ex_defs)

text \<open>
  Claim C3, as the code has it. Whenever \<^verbatim>\<open>NextData\<close> returns: if it returns
  anything but a DA sequence (an error of the finalized-height query, of the fetch or
  of the decoding, the sentinel, a panic) the source is what it was before the call;
  if it returns a DA sequence, the finalized height was read, the fetch of the range
  from the cursor to \<open>to\<close> and its decoding succeeded, and the cursor is \<open>to + 1\<close>; on
  a step that is not exhausted the cursor is \<open>to + 1\<close> only then; and when the fetch
  and the decoding of that range succeed, the call returns, with the DA sequence and
  the cursor at \<open>to + 1\<close>. The new cursor is
  above the old one provided the finalized height is not \<open>2 ^ 64 - 1\<close>, the last
  \<^verbatim>\<open>uint64\<close>, and under that proviso the cursors after consecutive successful steps are
  strictly increasing.
\<close>

theorem cursor_advances_only_on_success:
  "(NextData env ds = Some (r, ds', cs) \<longrightarrow>
      ((\<forall>da. r \<noteq> Ok da) \<longrightarrow> ds' = ds) \<and>
      (\<forall>da. r = Ok da \<longrightarrow>
         (\<exists>fin logs cs'.
            getFinalizedBlockNumber (l1Client env) = Inr fin \<and>
            l1height ds \<le> fetchTo (l1height ds) fin \<and>
            fetchRollupEventsInRange (l1Client env) (l1height ds) (fetchTo (l1height ds) fin) = Inr logs \<and>
            processLogsToDA env ds logs = Some (Ok da, cs') \<and>
            ds' = ds\<lparr>l1height := fetchTo (l1height ds) fin + 1\<rparr> \<and>
            (fin \<noteq> - 1 \<longrightarrow> l1height ds < l1height ds'))) \<and>
      (\<forall>fin. getFinalizedBlockNumber (l1Client env) = Inr fin \<and> r \<noteq> Err SourceExhausted \<and>
             l1height ds' = fetchTo (l1height ds) fin + 1 \<longrightarrow> (\<exists>da. r = Ok da))) \<and>
   (getFinalizedBlockNumber (l1Client env) = Inr l1Finalized \<and>
    l1height ds \<le> fetchTo (l1height ds) l1Finalized \<and>
    fetchRollupEventsInRange (l1Client env) (l1height ds) (fetchTo (l1height ds) l1Finalized) = Inr vLogs \<and>
    processLogsToDA env ds vLogs = Some (Ok entries, calls) \<longrightarrow>
      NextData env ds =
        Some (Ok entries, ds\<lparr>l1height := fetchTo (l1height ds) l1Finalized + 1\<rparr>,
          Call_getFinalizedBlockNumber
          # Call_fetchRollupEventsInRange (l1height ds) (fetchTo (l1height ds) l1Finalized) # calls)) \<and>
   (NextDataSteps envs ds = Some hs \<and>
    (\<forall>e \<in> set envs. getFinalizedBlockNumber (l1Client e) \<noteq> Inr (- 1)) \<longrightarrow>
      sorted_wrt (<) (l1height ds # hs))"
proof (intro conjI impI allI)
  assume "NextData env ds = Some (r, ds', cs)" and "\<forall>da. r \<noteq> Ok da"
  then show "ds' = ds" by (rule NextData_failure_unchanged)
next
  fix da
  assume run: "NextData env ds = Some (r, ds', cs)" and ok: "r = Ok da"
  from NextData_Ok [OF run [unfolded ok]] obtain fin logs cs' where
    f: "getFinalizedBlockNumber (l1Client env) = Inr fin"
      "l1height ds \<le> fetchTo (l1height ds) fin"
      "fetchRollupEventsInRange (l1Client env) (l1height ds) (fetchTo (l1height ds) fin) = Inr logs"
      "processLogsToDA env ds logs = Some (Ok da, cs')"
      "ds' = ds\<lparr>l1height := fetchTo (l1height ds) fin + 1\<rparr>"
    by blast
  have "fin \<noteq> - 1 \<longrightarrow> l1height ds < l1height ds'"
    using cursor_advances [OF f(2)] f(5) by simp
  with f show "\<exists>fin logs cs'.
            getFinalizedBlockNumber (l1Client env) = Inr fin \<and>
            l1height ds \<le> fetchTo (l1height ds) fin \<and>
            fetchRollupEventsInRange (l1Client env) (l1height ds) (fetchTo (l1height ds) fin) = Inr logs \<and>
            processLogsToDA env ds logs = Some (Ok da, cs') \<and>
            ds' = ds\<lparr>l1height := fetchTo (l1height ds) fin + 1\<rparr> \<and>
            (fin \<noteq> - 1 \<longrightarrow> l1height ds < l1height ds')"
    by blast
next
  fix fin
  assume run: "NextData env ds = Some (r, ds', cs)"
    and h: "getFinalizedBlockNumber (l1Client env) = Inr fin \<and> r \<noteq> Err SourceExhausted \<and>
             l1height ds' = fetchTo (l1height ds) fin + 1"
  show "\<exists>da. r = Ok da"
  proof (rule ccontr)
    assume "\<nexists>da. r = Ok da"
    then have no: "\<forall>da. r \<noteq> Ok da" by simp
    from NextData_failure_unchanged [OF run no] have same: "ds' = ds" .
    from run h no have "l1height ds \<le> fetchTo (l1height ds) fin"
      by (auto simp: NextData_def split: sum.splits if_splits option.splits result.splits prod.splits)
    from cursor_not_next [OF this] h same show False by simp
  qed
next
  assume "getFinalizedBlockNumber (l1Client env) = Inr l1Finalized \<and>
    l1height ds \<le> fetchTo (l1height ds) l1Finalized \<and>
    fetchRollupEventsInRange (l1Client env) (l1height ds) (fetchTo (l1height ds) l1Finalized) = Inr vLogs \<and>
    processLogsToDA env ds vLogs = Some (Ok entries, calls)"
  then show "NextData env ds =
        Some (Ok entries, ds\<lparr>l1height := fetchTo (l1height ds) l1Finalized + 1\<rparr>,
          Call_getFinalizedBlockNumber
          # Call_fetchRollupEventsInRange (l1height ds) (fetchTo (l1height ds) l1Finalized) # calls)"
    by (auto simp add: NextData_def)
next
  assume "NextDataSteps envs ds = Some hs \<and>
    (\<forall>e \<in> set envs. getFinalizedBlockNumber (l1Client e) \<noteq> Inr (- 1))"
  then show "sorted_wrt (<) (l1height ds # hs)"
    using NextDataSteps_increasing by blast
qed

text \<open>
  The claim as stated has no proviso. With the cursor at \<open>2 ^ 64 - 501\<close> and the
  finalized height \<open>2 ^ 64 - 1\<close>, the step succeeds and \<^verbatim>\<open>to + 1\<close> wraps: the cursor
  is 0 after the call.
\<close>

theorem cursor_wraps_at_the_last_height:
  "NextData (ex_env (- 1) [9, 9] :: nat env) (ex_source 18446744073709551115) =
     Some (Ok [], ex_source 0,
       [Call_getFinalizedBlockNumber,
        Call_fetchRollupEventsInRange 18446744073709551115 18446744073709551615]) \<and>
   \<not> l1height (ex_source 18446744073709551115) < l1height (ex_source 0)"
  by (simp add: ex_NextData_wrap) (simp add: ex_source_def)

theorem cursor_advances_only_on_success_witness:
  "NextData (ex_env 1000 [9, 9] :: nat env) (ex_source 501) =
     Some (Ok [], ex_source 1001,
       [Call_getFinalizedBlockNumber, Call_fetchRollupEventsInRange 501 1000]) \<and>
   l1height (ex_source 501) < l1height (ex_source 1001) \<and>
   NextData ((ex_env 1000 [9, 9] :: nat env)
       \<lparr>l1Client := (ex_l1Client 1000)\<lparr>fetchRollupEventsInRange := (\<lambda>from to. Inl (Other ''timeout''))\<rparr>\<rparr>)
     (ex_source 0) =
     Some (Err (CannotGetEvents 0 (Other ''timeout'')), ex_source 0,
       [Call_getFinalizedBlockNumber, Call_fetchRollupEventsInRange 0 500]) \<and>
   NextDataSteps [ex_env 1000 [9, 9] :: nat env, ex_env 1000 [9, 9]] (ex_source 0) = Some [501, 1001] \<and>
   sorted_wrt (<) (l1height (ex_source 0) # [501, 1001])"
proof -
  let ?env = "ex_env 1000 [9, 9] :: nat env"
  let ?bad = "?env\<lparr>l1Client := (ex_l1Client 1000)\<lparr>fetchRollupEventsInRange := (\<lambda>from to. Inl (Other ''timeout''))\<rparr>\<rparr>"
  have fin: "getFinalizedBlockNumber (l1Client ?env) = Inr 1000"
    by (simp add: ex_defs)
  have all: "\<forall>e \<in> set [?env, ?env]. getFinalizedBlockNumber (l1Client e) \<noteq> Inr (- 1)"
    by (simp add: ex_defs)
  note ok = cursor_advances_only_on_success [where env = ?env and ds = "ex_source 501"
      and r = "Ok []" and ds' = "ex_source 1001"
      and cs = "[Call_getFinalizedBlockNumber, Call_fetchRollupEventsInRange 501 1000]"
      and envs = "[?env, ?env]" and hs = "[501, 1001]"]
  note failed = cursor_advances_only_on_success [where env = ?bad and ds = "ex_source 0"
      and r = "Err (CannotGetEvents 0 (Other ''timeout''))" and ds' = "ex_source 0"
      and cs = "[Call_getFinalizedBlockNumber, Call_fetchRollupEventsInRange 0 500]"
      and envs = "[]" and hs = "[]"]
  have less: "l1height (ex_source 501) < l1height (ex_source 1001)"
    using ok [THEN conjunct1, rule_format, OF ex_NextData_501, THEN conjunct2, THEN conjunct1,
        rule_format, OF refl] fin
    by auto
  have same: "ex_source 0 = ex_source 0"
    using failed [THEN conjunct1, rule_format, OF ex_NextData_fetch_fails, THEN conjunct1] by simp
  note steps = cursor_advances_only_on_success [where env = ?env and ds = "ex_source 0"
      and envs = "[?env, ?env]" and hs = "[501, 1001]"]
  have sorted: "sorted_wrt (<) (l1height (ex_source 0) # [501, 1001])"
    using steps [THEN conjunct2, THEN conjunct2, rule_format, OF conjI, OF ex_NextDataSteps all] .
  have fetched: "getFinalizedBlockNumber (l1Client ?env) = Inr 1000 \<and>
      l1height (ex_source 501) \<le> fetchTo (l1height (ex_source 501)) 1000 \<and>
      fetchRollupEventsInRange (l1Client ?env) (l1height (ex_source 501))
        (fetchTo (l1height (ex_source 501)) 1000) = Inr [] \<and>
      processLogsToDA ?env (ex_source 501) [] = Some (Ok [], [])"
    by (simp add: ex_defs fetchTo_def callDataBlobSourceFetchBlockRange_def processLogsToDA_def)
  have returns: "NextData ?env (ex_source 501) =
      Some (Ok [], ex_source 1001,
        [Call_getFinalizedBlockNumber, Call_fetchRollupEventsInRange 501 1000])"
    using ok [where l1Finalized = 1000 and vLogs = "[]" and entries = "[]" and calls = "[]",
        THEN conjunct2, THEN conjunct1, rule_format, OF fetched]
    by (simp add: ex_source_def fetchTo_def callDataBlobSourceFetchBlockRange_def)
  from less same sorted returns ex_NextData_fetch_fails ex_NextDataSteps show ?thesis
    by blast
qed

section \<open>The fetch window\<close>

text \<open>
  Claim C4, as the code has it. The upper bound is
  \<open>min (cursor + WINDOW) finalizedHeight\<close> in \<^verbatim>\<open>uint64\<close> arithmetic, with \<open>WINDOW\<close> the
  constant 500 (in natural numbers when \<open>cursor + 500\<close> does not overflow); every
  call starts by asking for the finalized height; a step that is not exhausted fetches
  the range from the cursor to that bound; and when the finalized height is below the
  cursor, or the bound is, the call returns the sentinel, leaves the source unchanged
  and calls nothing else.
\<close>

theorem fetch_window:
  "fetchTo cursor fin = min (cursor + callDataBlobSourceFetchBlockRange) fin \<and>
   callDataBlobSourceFetchBlockRange = 500 \<and>
   (unat cursor + 500 < 2 ^ 64 \<longrightarrow> unat (fetchTo cursor fin) = min (unat cursor + 500) (unat fin)) \<and>
   (NextData env ds = Some (r, ds', cs) \<longrightarrow> (\<exists>cs'. cs = Call_getFinalizedBlockNumber # cs')) \<and>
   (getFinalizedBlockNumber (l1Client env) = Inr fin \<and> l1height ds \<le> fetchTo (l1height ds) fin \<and>
    NextData env ds = Some (r, ds', cs) \<longrightarrow>
      (\<exists>cs'. cs = Call_getFinalizedBlockNumber
                  # Call_fetchRollupEventsInRange (l1height ds) (fetchTo (l1height ds) fin) # cs')) \<and>
   (getFinalizedBlockNumber (l1Client env) = Inr fin \<and>
    (fin < l1height ds \<or> fetchTo (l1height ds) fin < l1height ds) \<longrightarrow>
      NextData env ds = Some (Err SourceExhausted, ds, [Call_getFinalizedBlockNumber]))"
proof (intro conjI impI)
  show "fetchTo cursor fin = min (cursor + callDataBlobSourceFetchBlockRange) fin"
    by (rule fetchTo_min)
  show "callDataBlobSourceFetchBlockRange = 500"
    by (rule callDataBlobSourceFetchBlockRange_def)
next
  assume "unat cursor + 500 < 2 ^ 64"
  then show "unat (fetchTo cursor fin) = min (unat cursor + 500) (unat fin)"
    by (rule fetchTo_unat)
next
  assume "NextData env ds = Some (r, ds', cs)"
  then show "\<exists>cs'. cs = Call_getFinalizedBlockNumber # cs'"
    by (rule NextData_first_call)
next
  assume "getFinalizedBlockNumber (l1Client env) = Inr fin \<and>
    l1height ds \<le> fetchTo (l1height ds) fin \<and> NextData env ds = Some (r, ds', cs)"
  then show "\<exists>cs'. cs = Call_getFinalizedBlockNumber
                  # Call_fetchRollupEventsInRange (l1height ds) (fetchTo (l1height ds) fin) # cs'"
    by (auto simp: NextData_def split: sum.splits if_splits option.splits result.splits prod.splits)
next
  assume h: "getFinalizedBlockNumber (l1Client env) = Inr fin \<and>
    (fin < l1height ds \<or> fetchTo (l1height ds) fin < l1height ds)"
  then have "fetchTo (l1height ds) fin < l1height ds"
    using finalized_below_cursor by blast
  with h show "NextData env ds = Some (Err SourceExhausted, ds, [Call_getFinalizedBlockNumber])"
    by (simp add: NextData_def)
qed

text \<open>
  The claim's bound is \<open>cursor + WINDOW - 1\<close>. With the cursor at 0 and the finalized
  height 1000 the code's bound is 500, the claim's 499.
\<close>

theorem fetch_window_is_not_cursor_plus_window_minus_one:
  "fetchTo 0 1000 = 500 \<and>
   min (0 + callDataBlobSourceFetchBlockRange - 1) 1000 = (499 :: uint64) \<and>
   fetchTo 0 1000 \<noteq> min (0 + callDataBlobSourceFetchBlockRange - 1) 1000"
  by (simp add: fetchTo_def callDataBlobSourceFetchBlockRange_def)

theorem fetch_window_witness:
  "unat (fetchTo 0 1000) = min (unat (0 :: uint64) + 500) (unat (1000 :: uint64)) \<and>
   (\<exists>cs'. [Call_getFinalizedBlockNumber, Call_fetchRollupEventsInRange 501 1000] =
       Call_getFinalizedBlockNumber # Call_fetchRollupEventsInRange (l1height (ex_source 501))
         (fetchTo (l1height (ex_source 501)) 1000) # cs') \<and>
   NextData (ex_env 1000 [9, 9] :: nat env) (ex_source 2000) =
     Some (Err SourceExhausted, ex_source 2000, [Call_getFinalizedBlockNumber])"
proof -
  let ?env = "ex_env 1000 [9, 9] :: nat env"
  have fin: "getFinalizedBlockNumber (l1Client ?env) = Inr 1000"
    by (simp add: ex_defs)
  have small: "unat (0 :: uint64) + 500 < 2 ^ 64" by simp
  have inside: "l1height (ex_source 501) \<le> fetchTo (l1height (ex_source 501)) 1000"
    by (simp add: ex_source_def fetchTo_def callDataBlobSourceFetchBlockRange_def)
  have below: "(1000 :: uint64) < l1height (ex_source 2000)"
    by (simp add: ex_source_def)
  note w1 = fetch_window [where cursor = 0 and fin = 1000 and env = ?env and ds = "ex_source 501"
      and r = "Ok []" and ds' = "ex_source 1001"
      and cs = "[Call_getFinalizedBlockNumber, Call_fetchRollupEventsInRange 501 1000]"]
  note w2 = fetch_window [where cursor = 0 and fin = 1000 and env = ?env and ds = "ex_source 2000"]
  have a: "unat (fetchTo 0 1000) = min (unat (0 :: uint64) + 500) (unat (1000 :: uint64))"
    using w1 small by blast
  have b: "\<exists>cs'. [Call_getFinalizedBlockNumber, Call_fetchRollupEventsInRange 501 1000] =
       Call_getFinalizedBlockNumber # Call_fetchRollupEventsInRange (l1height (ex_source 501))
         (fetchTo (l1height (ex_source 501)) 1000) # cs'"
    using w1 fin inside ex_NextData_501 by blast
  have c: "NextData ?env (ex_source 2000) =
     Some (Err SourceExhausted, ex_source 2000, [Call_getFinalizedBlockNumber])"
    using w2 fin below by blast
  from a b c show ?thesis by blast
qed

section \<open>The two shapes of a commit call\<close>

text \<open>
  Claim C5, as the code has it. For a commit event with a batch index other than 0
  whose transaction data is fetched, has at least four bytes, names a method of the ABI
  by its first four bytes and unpacks: a method named \<^verbatim>\<open>commitBatch\<close> is decoded by
  its version, 0, 1 or 2, and any other version is the unknown-version error, made
  after the four ABI calls and before any decoding; a method of any other name is
  copied into the arguments with the proof field, the proof field is dropped, and the
  call is decoded by the version-2 decoder whatever its version field is.
\<close>

theorem commit_call_dispatch:
  "batchIndex \<noteq> 0 \<and> fetchTxData (l1Client env) vLog = Inr txData \<and>
   methodIDLength \<le> length txData \<and>
   MethodById (scrollChainABI env) (take methodIDLength txData) = Inr m \<and>
   Unpack (scrollChainABI env) m (drop methodIDLength txData) = Inr vals \<longrightarrow>
     (Name m = ''commitBatch'' \<and>
      Copy_commitBatchArgs (scrollChainABI env) m vals = Inr args \<longrightarrow>
        getCommitBatchDa env batchIndex vLog =
          map_option
            (after [Call_fetchTxData vLog, Call_MethodById (take methodIDLength txData),
               Call_Unpack (drop methodIDLength txData), Call_Copy vals])
            (if Version args = 0 then decodeDAV0 env batchIndex vLog args
             else if Version args = 1 then decodeDAV1 env batchIndex vLog args
             else if Version args = 2 then decodeDAV2 env batchIndex vLog args
             else Some (Err (UnknownCodecVersion (Version args)), []))) \<and>
     (Name m = ''commitBatch'' \<and>
      Copy_commitBatchArgs (scrollChainABI env) m vals = Inr args \<and> 2 < Version args \<longrightarrow>
        getCommitBatchDa env batchIndex vLog =
          Some (Err (UnknownCodecVersion (Version args)),
            [Call_fetchTxData vLog, Call_MethodById (take methodIDLength txData),
             Call_Unpack (drop methodIDLength txData), Call_Copy vals])) \<and>
     (Name m \<noteq> ''commitBatch'' \<and>
      Copy_commitBatchWithBlobProofArgs (scrollChainABI env) m vals = Inr proofArgs \<longrightarrow>
        getCommitBatchDa env batchIndex vLog =
          map_option
            (after [Call_fetchTxData vLog, Call_MethodById (take methodIDLength txData),
               Call_Unpack (drop methodIDLength txData), Call_Copy vals])
            (decodeDAV2 env batchIndex vLog
               \<lparr>Version = bp_Version proofArgs, ParentBatchHeader = bp_ParentBatchHeader proofArgs,
                Chunks = bp_Chunks proofArgs,
                SkippedL1MessageBitmap = bp_SkippedL1MessageBitmap proofArgs\<rparr>))"
proof (intro impI conjI)
  assume pre: "batchIndex \<noteq> 0 \<and> fetchTxData (l1Client env) vLog = Inr txData \<and>
   methodIDLength \<le> length txData \<and>
   MethodById (scrollChainABI env) (take methodIDLength txData) = Inr m \<and>
   Unpack (scrollChainABI env) m (drop methodIDLength txData) = Inr vals"
  {
    assume "Name m = ''commitBatch'' \<and>
      Copy_commitBatchArgs (scrollChainABI env) m vals = Inr args"
    with pre show "getCommitBatchDa env batchIndex vLog =
          map_option
            (after [Call_fetchTxData vLog, Call_MethodById (take methodIDLength txData),
               Call_Unpack (drop methodIDLength txData), Call_Copy vals])
            (if Version args = 0 then decodeDAV0 env batchIndex vLog args
             else if Version args = 1 then decodeDAV1 env batchIndex vLog args
             else if Version args = 2 then decodeDAV2 env batchIndex vLog args
             else Some (Err (UnknownCodecVersion (Version args)), []))"
      by (simp add: getCommitBatchDa_def)
  next
    assume h: "Name m = ''commitBatch'' \<and>
      Copy_commitBatchArgs (scrollChainABI env) m vals = Inr args \<and> 2 < Version args"
    then have "Version args \<noteq> 0" "Version args \<noteq> 1" "Version args \<noteq> 2"
      by auto
    with pre h show "getCommitBatchDa env batchIndex vLog =
          Some (Err (UnknownCodecVersion (Version args)),
            [Call_fetchTxData vLog, Call_MethodById (take methodIDLength txData),
             Call_Unpack (drop methodIDLength txData), Call_Copy vals])"
      by (simp add: getCommitBatchDa_def after_def)
  next
    assume "Name m \<noteq> ''commitBatch'' \<and>
      Copy_commitBatchWithBlobProofArgs (scrollChainABI env) m vals = Inr proofArgs"
    with pre show "getCommitBatchDa env batchIndex vLog =
          map_option
            (after [Call_fetchTxData vLog, Call_MethodById (take methodIDLength txData),
               Call_Unpack (drop methodIDLength txData), Call_Copy vals])
            (decodeDAV2 env batchIndex vLog
               \<lparr>Version = bp_Version proofArgs, ParentBatchHeader = bp_ParentBatchHeader proofArgs,
                Chunks = bp_Chunks proofArgs,
                SkippedL1MessageBitmap = bp_SkippedL1MessageBitmap proofArgs\<rparr>)"
      by (simp add: getCommitBatchDa_def)
  }
qed

lemma ex_decodeDAV2_version7:
  "decodeDAV2 (ex_env 1000 [9, 9]) 6 ex_blobProofLog (ex_args 7) =
     Some (Ok (Commit \<lparr>cb_DaType = CommitBatchV2, cb_Version = 7, cb_BatchIndex = 6,
                 cb_ParentTotalL1MessagePopped = 3, cb_SkippedL1MessageBitmap = ex_bitmap,
                 cb_Chunks = [\<lparr>Blocks = [\<lparr>NumTransactions = 0, NumL1Messages = 2\<rparr>], Transactions = []\<rparr>],
                 cb_L1Txs = [4, 5], cb_L1BlockNumber = 40\<rparr>),
       [Call_DecodeDAChunksRawTx [[2]], Call_fetchTxBlobHash ex_blobProofLog,
        Call_GetBlobByVersionedHash 77, Call_BlobToCommitment [9, 9],
        Call_DecodeTxsFromBlob [9, 9], Call_DecodeBitmap ex_bitmap 2,
        Call_ReadL1Message 4, Call_ReadL1Message 5])"
  by (simp add: model_defs ex_defs ex_blobProofLog_def l1MessagesV1_numeral skipSkipped.simps)

text \<open>
  The claim has both shapes dispatch on the version and fail outside 0, 1, 2. A call of
  \<^verbatim>\<open>commitBatchWithBlobProof\<close> with version 7 is decoded, by the version-2 decoder,
  into an entry of version 7.
\<close>

theorem blob_proof_call_ignores_the_version:
  "getCommitBatchDa (ex_env 1000 [9, 9]) 6 ex_blobProofLog =
     Some (Ok (Commit \<lparr>cb_DaType = CommitBatchV2, cb_Version = 7, cb_BatchIndex = 6,
                 cb_ParentTotalL1MessagePopped = 3, cb_SkippedL1MessageBitmap = ex_bitmap,
                 cb_Chunks = [\<lparr>Blocks = [\<lparr>NumTransactions = 0, NumL1Messages = 2\<rparr>], Transactions = []\<rparr>],
                 cb_L1Txs = [4, 5], cb_L1BlockNumber = 40\<rparr>),
       [Call_fetchTxData ex_blobProofLog, Call_MethodById [5, 6, 7, 8], Call_Unpack [7],
        Call_Copy [AbiUint8 7, AbiBytes ex_header, AbiBytesList [[2]], AbiBytes ex_bitmap,
                   AbiBytes [170, 187]],
        Call_DecodeDAChunksRawTx [[2]], Call_fetchTxBlobHash ex_blobProofLog,
        Call_GetBlobByVersionedHash 77, Call_BlobToCommitment [9, 9],
        Call_DecodeTxsFromBlob [9, 9], Call_DecodeBitmap ex_bitmap 2,
        Call_ReadL1Message 4, Call_ReadL1Message 5])"
  by (simp add: run_defs model_defs ex_defs ex_blobProofLog_def l1MessagesV1_numeral
      skipSkipped.simps)

theorem commit_call_dispatch_witness:
  "getCommitBatchDa (ex_env 1000 [9, 9] :: nat env) 5 ex_commitLog =
     map_option
       (after [Call_fetchTxData ex_commitLog, Call_MethodById [1, 2, 3, 4], Call_Unpack [0],
          Call_Copy [AbiUint8 0, AbiBytes ex_header, AbiBytesList [[2]], AbiBytes ex_bitmap]])
       (decodeDAV0 (ex_env 1000 [9, 9]) 5 ex_commitLog (ex_args 0)) \<and>
   getCommitBatchDa (ex_env 1000 [9, 9] :: nat env) 7 ex_version9Log =
     Some (Err (UnknownCodecVersion 9),
       [Call_fetchTxData ex_version9Log, Call_MethodById [1, 2, 3, 4], Call_Unpack [9],
        Call_Copy [AbiUint8 9, AbiBytes ex_header, AbiBytesList [[2]], AbiBytes ex_bitmap]]) \<and>
   getCommitBatchDa (ex_env 1000 [9, 9] :: nat env) 6 ex_blobProofLog =
     map_option
       (after [Call_fetchTxData ex_blobProofLog, Call_MethodById [5, 6, 7, 8], Call_Unpack [7],
          Call_Copy [AbiUint8 7, AbiBytes ex_header, AbiBytesList [[2]], AbiBytes ex_bitmap,
                     AbiBytes [170, 187]]])
       (decodeDAV2 (ex_env 1000 [9, 9]) 6 ex_blobProofLog (ex_args 7))"
proof -
  let ?env = "ex_env 1000 [9, 9] :: nat env"
  let ?plain = "\<lparr>Name = ''commitBatch'', ID = [1, 2, 3, 4]\<rparr>"
  let ?proof = "\<lparr>Name = ''commitBatchWithBlobProof'', ID = [5, 6, 7, 8]\<rparr>"
  let ?vals0 = "[AbiUint8 0, AbiBytes ex_header, AbiBytesList [[2]], AbiBytes ex_bitmap]"
  let ?vals9 = "[AbiUint8 9, AbiBytes ex_header, AbiBytesList [[2]], AbiBytes ex_bitmap]"
  let ?vals7 = "[AbiUint8 7, AbiBytes ex_header, AbiBytesList [[2]], AbiBytes ex_bitmap,
                 AbiBytes [170, 187]]"
  let ?proofArgs = "\<lparr>bp_Version = 7, bp_ParentBatchHeader = ex_header, bp_Chunks = [[2]],
                     bp_SkippedL1MessageBitmap = ex_bitmap, bp_BlobDataProof = [170, 187]\<rparr>"
  have pre0: "(5 :: uint64) \<noteq> 0 \<and> fetchTxData (l1Client ?env) ex_commitLog = Inr [1, 2, 3, 4, 0] \<and>
      methodIDLength \<le> length [1, 2, 3, 4, 0 :: uint8] \<and>
      MethodById (scrollChainABI ?env) (take methodIDLength [1, 2, 3, 4, 0]) = Inr ?plain \<and>
      Unpack (scrollChainABI ?env) ?plain (drop methodIDLength [1, 2, 3, 4, 0]) = Inr ?vals0"
    by (simp add: ex_defs methodIDLength_def)
  have in0: "Name ?plain = ''commitBatch'' \<and>
      Copy_commitBatchArgs (scrollChainABI ?env) ?plain ?vals0 = Inr (ex_args 0)"
    by (simp add: ex_defs)
  have pre9: "(7 :: uint64) \<noteq> 0 \<and> fetchTxData (l1Client ?env) ex_version9Log = Inr [1, 2, 3, 4, 9] \<and>
      methodIDLength \<le> length [1, 2, 3, 4, 9 :: uint8] \<and>
      MethodById (scrollChainABI ?env) (take methodIDLength [1, 2, 3, 4, 9]) = Inr ?plain \<and>
      Unpack (scrollChainABI ?env) ?plain (drop methodIDLength [1, 2, 3, 4, 9]) = Inr ?vals9"
    by (simp add: ex_defs ex_version9Log_def methodIDLength_def)
  have in9: "Name ?plain = ''commitBatch'' \<and>
      Copy_commitBatchArgs (scrollChainABI ?env) ?plain ?vals9 = Inr (ex_args 9) \<and>
      2 < Version (ex_args 9)"
    by (simp add: ex_defs)
  have pre7: "(6 :: uint64) \<noteq> 0 \<and> fetchTxData (l1Client ?env) ex_blobProofLog = Inr [5, 6, 7, 8, 7] \<and>
      methodIDLength \<le> length [5, 6, 7, 8, 7 :: uint8] \<and>
      MethodById (scrollChainABI ?env) (take methodIDLength [5, 6, 7, 8, 7]) = Inr ?proof \<and>
      Unpack (scrollChainABI ?env) ?proof (drop methodIDLength [5, 6, 7, 8, 7]) = Inr ?vals7"
    by (simp add: ex_defs ex_blobProofLog_def methodIDLength_def)
  have in7: "Name ?proof \<noteq> ''commitBatch'' \<and>
      Copy_commitBatchWithBlobProofArgs (scrollChainABI ?env) ?proof ?vals7 = Inr ?proofArgs"
    by (simp add: ex_defs)
  have a: "getCommitBatchDa ?env 5 ex_commitLog =
     map_option
       (after [Call_fetchTxData ex_commitLog, Call_MethodById [1, 2, 3, 4], Call_Unpack [0],
          Call_Copy ?vals0])
       (decodeDAV0 ?env 5 ex_commitLog (ex_args 0))"
    using commit_call_dispatch [where env = ?env and batchIndex = 5 and vLog = ex_commitLog
        and txData = "[1, 2, 3, 4, 0]" and m = ?plain and vals = ?vals0 and args = "ex_args 0",
        rule_format, OF pre0, THEN conjunct1, rule_format, OF in0]
    by (simp add: methodIDLength_def ex_args_def)
  have b: "getCommitBatchDa ?env 7 ex_version9Log =
     Some (Err (UnknownCodecVersion 9),
       [Call_fetchTxData ex_version9Log, Call_MethodById [1, 2, 3, 4], Call_Unpack [9],
        Call_Copy ?vals9])"
    using commit_call_dispatch [where env = ?env and batchIndex = 7 and vLog = ex_version9Log
        and txData = "[1, 2, 3, 4, 9]" and m = ?plain and vals = ?vals9 and args = "ex_args 9",
        rule_format, OF pre9, THEN conjunct2, THEN conjunct1, rule_format, OF in9]
    by (simp add: methodIDLength_def ex_args_def)
  have c: "getCommitBatchDa ?env 6 ex_blobProofLog =
     map_option
       (after [Call_fetchTxData ex_blobProofLog, Call_MethodById [5, 6, 7, 8], Call_Unpack [7],
          Call_Copy ?vals7])
       (decodeDAV2 ?env 6 ex_blobProofLog (ex_args 7))"
    using commit_call_dispatch [where env = ?env and batchIndex = 6 and vLog = ex_blobProofLog
        and txData = "[5, 6, 7, 8, 7]" and m = ?proof and vals = ?vals7
        and proofArgs = ?proofArgs,
        rule_format, OF pre7, THEN conjunct2, THEN conjunct2, rule_format, OF in7]
    by (simp add: methodIDLength_def ex_args_def)
  from a b c show ?thesis by blast
qed

section \<open>Refilling the queue\<close>

declare getNextData.simps [simp del]

lemma getNextData_exhausted_step:
  assumes "(case dataSource dq of None \<Rightarrow> OpenDataSource (dq_l1height dq) | Some s \<Rightarrow> Inr s) = Inr src"
      and "NextData env src = Some (Err SourceExhausted, src', cs)"
  shows "getNextData OpenDataSource (env # envs) dq =
           (case getNextData OpenDataSource envs
                   (dq\<lparr>dq_l1height := L1Height src', dataSource := None, dq_da := []\<rparr>) of
              None \<Rightarrow> None
            | Some (r, dq', depth) \<Rightarrow> Some (r, dq', Suc depth))"
  by (subst getNextData.simps) (simp add: assms)

lemma getNextData_exhausted_run:
  assumes "\<forall>env \<in> set exs. \<exists>fin. getFinalizedBlockNumber (l1Client env) = Inr fin \<and> fin < dq_l1height dq"
      and "dataSource dq = None" and "dq_da dq = []"
      and "OpenDataSource (dq_l1height dq) = Inr src" and "l1height src = dq_l1height dq"
  shows "getNextData OpenDataSource (exs @ envs) dq =
           (case getNextData OpenDataSource envs dq of
              None \<Rightarrow> None
            | Some (r, dq', depth) \<Rightarrow> Some (r, dq', length exs + depth))"
  using assms(1)
proof (induction exs)
  case Nil
  show ?case by (simp split: option.splits)
next
  case (Cons env exs)
  from Cons.prems obtain fin where
    fin: "getFinalizedBlockNumber (l1Client env) = Inr fin" "fin < l1height src"
    using assms(5) by auto
  from NextData_exhausted [OF fin]
  have ex: "NextData env src = Some (Err SourceExhausted, src, [Call_getFinalizedBlockNumber])" .
  have opened: "(case dataSource dq of None \<Rightarrow> OpenDataSource (dq_l1height dq) | Some s \<Rightarrow> Inr s) = Inr src"
    using assms(2,4) by simp
  have same: "dq\<lparr>dq_l1height := L1Height src, dataSource := None, dq_da := []\<rparr> = dq"
    using assms(2,3,5) by (simp add: L1Height_def)
  from Cons.prems have rest: "\<forall>env \<in> set exs. \<exists>fin. getFinalizedBlockNumber (l1Client env) = Inr fin \<and> fin < dq_l1height dq"
    by simp
  have "getNextData OpenDataSource ((env # exs) @ envs) dq =
          (case getNextData OpenDataSource (exs @ envs) dq of
             None \<Rightarrow> None
           | Some (r, dq', depth) \<Rightarrow> Some (r, dq', Suc depth))"
    using getNextData_exhausted_step [where dq = dq and OpenDataSource = OpenDataSource
        and src = src and env = env and src' = src and envs = "exs @ envs", OF opened ex] same
    by simp
  also have "\<dots> = (case getNextData OpenDataSource envs dq of
              None \<Rightarrow> None
            | Some (r, dq', depth) \<Rightarrow> Some (r, dq', length (env # exs) + depth))"
    using Cons.IH [OF rest] by (simp split: option.splits)
  finally show ?case .
qed

lemma getNextData_success:
  assumes "(case dataSource dq of None \<Rightarrow> OpenDataSource (dq_l1height dq) | Some s \<Rightarrow> Inr s) = Inr src"
      and "NextData env src = Some (Ok da, src', cs)"
  shows "getNextData OpenDataSource (env # envs) dq =
           Some (Ok (), dq\<lparr>dataSource := Some src', dq_da := da\<rparr>, 1)"
  by (subst getNextData.simps) (simp add: assms)

lemma l1height_ex_source: "l1height (ex_source height) = height"
  by (simp add: ex_source_def)

lemma ex_NextData_2000:
  "NextData (ex_env 3000 [9, 9] :: nat env) (ex_source 2000) =
     Some (Ok [], ex_source 2501,
       [Call_getFinalizedBlockNumber, Call_fetchRollupEventsInRange 2000 2500])"
  by (simp add: run_defs model_defs ex_defs)

lemma ex_NextData_1001_exhausted:
  "NextData (ex_env 1000 [9, 9] :: nat env) (ex_source 1001) =
     Some (Err SourceExhausted, ex_source 1001, [Call_getFinalizedBlockNumber])"
  by (simp add: run_defs model_defs ex_defs)

lemma ex_NextData_1001:
  "NextData (ex_env 3000 [9, 9] :: nat env) (ex_source 1001) =
     Some (Ok [], ex_source 1502,
       [Call_getFinalizedBlockNumber, Call_fetchRollupEventsInRange 1001 1501])"
  by (simp add: run_defs model_defs ex_defs)

text \<open>
  Claim C8, as the code has it. When the source returns the sentinel, \<^verbatim>\<open>getNextData\<close>
  stores the source's cursor as the queue's height, drops the source, empties the
  buffer and calls itself, and returns what that call returns: the retry is one more
  activation on the stack. After a run of exhausted sources, as long as \<open>exs\<close>, the
  call that ends with a DA sequence returns from a depth of \<open>length exs + 1\<close>
  activations: the depth grows with the length of the run.
\<close>

theorem exhausted_refill_recurses:
  "((case dataSource dq of None \<Rightarrow> OpenDataSource (dq_l1height dq) | Some s \<Rightarrow> Inr s) = Inr src \<and>
    NextData env src = Some (Err SourceExhausted, src', cs) \<longrightarrow>
      getNextData OpenDataSource (env # envs) dq =
        (case getNextData OpenDataSource envs
                (dq\<lparr>dq_l1height := L1Height src', dataSource := None, dq_da := []\<rparr>) of
           None \<Rightarrow> None
         | Some (r, dq', depth) \<Rightarrow> Some (r, dq', Suc depth))) \<and>
   ((\<forall>e \<in> set exs. \<exists>fin. getFinalizedBlockNumber (l1Client e) = Inr fin \<and> fin < dq_l1height dq) \<and>
    dataSource dq = None \<and> dq_da dq = [] \<and>
    OpenDataSource (dq_l1height dq) = Inr src \<and> l1height src = dq_l1height dq \<and>
    NextData env src = Some (Ok da, src', cs) \<longrightarrow>
      getNextData OpenDataSource (exs @ env # envs) dq =
        Some (Ok (), dq\<lparr>dataSource := Some src', dq_da := da\<rparr>, length exs + 1))"
proof (intro conjI impI)
  assume "(case dataSource dq of None \<Rightarrow> OpenDataSource (dq_l1height dq) | Some s \<Rightarrow> Inr s) = Inr src \<and>
    NextData env src = Some (Err SourceExhausted, src', cs)"
  then show "getNextData OpenDataSource (env # envs) dq =
        (case getNextData OpenDataSource envs
                (dq\<lparr>dq_l1height := L1Height src', dataSource := None, dq_da := []\<rparr>) of
           None \<Rightarrow> None
         | Some (r, dq', depth) \<Rightarrow> Some (r, dq', Suc depth))"
    using getNextData_exhausted_step by blast
next
  assume h: "(\<forall>e \<in> set exs. \<exists>fin. getFinalizedBlockNumber (l1Client e) = Inr fin \<and> fin < dq_l1height dq) \<and>
    dataSource dq = None \<and> dq_da dq = [] \<and>
    OpenDataSource (dq_l1height dq) = Inr src \<and> l1height src = dq_l1height dq \<and>
    NextData env src = Some (Ok da, src', cs)"
  then have opened: "(case dataSource dq of None \<Rightarrow> OpenDataSource (dq_l1height dq) | Some s \<Rightarrow> Inr s) = Inr src"
    by simp
  from h have ok: "NextData env src = Some (Ok da, src', cs)" by simp
  have last: "getNextData OpenDataSource (env # envs) dq =
      Some (Ok (), dq\<lparr>dataSource := Some src', dq_da := da\<rparr>, 1)"
    using opened ok by (rule getNextData_success)
  from h have "getNextData OpenDataSource (exs @ env # envs) dq =
      (case getNextData OpenDataSource (env # envs) dq of
         None \<Rightarrow> None
       | Some (r, dq', depth) \<Rightarrow> Some (r, dq', length exs + depth))"
    by (intro getNextData_exhausted_run [where src = src]) auto
  with last show "getNextData OpenDataSource (exs @ env # envs) dq =
        Some (Ok (), dq\<lparr>dataSource := Some src', dq_da := da\<rparr>, length exs + 1)"
    by simp
qed

text \<open>
  The claim has the retry be a loop, one activation however long the run. Three
  exhausted results before a successful one are four activations.
\<close>

theorem three_exhausted_results_nest_four_calls:
  "getNextData ex_OpenDataSource
     [ex_env 1000 [9, 9], ex_env 1000 [9, 9], ex_env 1000 [9, 9], ex_env 3000 [9, 9] :: nat env]
     (NewDAQueue 2000) =
   Some (Ok (), \<lparr>dq_l1height = 2000, dataSource = Some (ex_source 2501), dq_da = []\<rparr>, 4)"
  by (simp add: getNextData.simps NewDAQueue_def ex_OpenDataSource_def ex_NextData_exhausted
      ex_NextData_2000 L1Height_def l1height_ex_source)

theorem exhausted_refill_recurses_witness:
  "getNextData ex_OpenDataSource [ex_env 1000 [9, 9], ex_env 3000 [9, 9] :: nat env]
     \<lparr>dq_l1height = 0, dataSource = Some (ex_source 1001), dq_da = []\<rparr> =
     Some (Ok (), \<lparr>dq_l1height = 1001, dataSource = Some (ex_source 1502), dq_da = []\<rparr>, 2) \<and>
   getNextData ex_OpenDataSource
     ([ex_env 1000 [9, 9], ex_env 1000 [9, 9], ex_env 1000 [9, 9]] @ [ex_env 3000 [9, 9] :: nat env])
     (NewDAQueue 2000) =
     Some (Ok (), \<lparr>dq_l1height = 2000, dataSource = Some (ex_source 2501), dq_da = []\<rparr>,
       length [ex_env 1000 [9, 9], ex_env 1000 [9, 9], ex_env 1000 [9, 9] :: nat env] + 1)"
proof -
  let ?low = "ex_env 1000 [9, 9] :: nat env"
  let ?high = "ex_env 3000 [9, 9] :: nat env"
  let ?dq = "\<lparr>dq_l1height = 0, dataSource = Some (ex_source 1001), dq_da = [] :: nat DA\<rparr>"
  have pre1: "(case dataSource ?dq of None \<Rightarrow> ex_OpenDataSource (dq_l1height ?dq) | Some s \<Rightarrow> Inr s) =
        Inr (ex_source 1001) \<and>
      NextData ?low (ex_source 1001) =
        Some (Err SourceExhausted, ex_source 1001, [Call_getFinalizedBlockNumber])"
    using ex_NextData_1001_exhausted by simp
  have inner: "getNextData ex_OpenDataSource [?high]
      (?dq\<lparr>dq_l1height := L1Height (ex_source 1001), dataSource := None, dq_da := []\<rparr>) =
      Some (Ok (), \<lparr>dq_l1height = 1001, dataSource = Some (ex_source 1502), dq_da = []\<rparr>, 1)"
    by (simp add: getNextData.simps ex_OpenDataSource_def ex_NextData_1001 L1Height_def
        l1height_ex_source)
  have a: "getNextData ex_OpenDataSource [?low, ?high] ?dq =
     Some (Ok (), \<lparr>dq_l1height = 1001, dataSource = Some (ex_source 1502), dq_da = []\<rparr>, 2)"
    using exhausted_refill_recurses [where dq = ?dq and OpenDataSource = ex_OpenDataSource
        and src = "ex_source 1001" and env = ?low and src' = "ex_source 1001"
        and cs = "[Call_getFinalizedBlockNumber]" and envs = "[?high]",
        THEN conjunct1, rule_format, OF pre1] inner
    by (simp add: L1Height_def l1height_ex_source)
  have pre2: "(\<forall>e \<in> set [?low, ?low, ?low].
        \<exists>fin. getFinalizedBlockNumber (l1Client e) = Inr fin \<and> fin < dq_l1height (NewDAQueue 2000 :: nat DAQueue)) \<and>
      dataSource (NewDAQueue 2000 :: nat DAQueue) = None \<and>
      dq_da (NewDAQueue 2000 :: nat DAQueue) = [] \<and>
      ex_OpenDataSource (dq_l1height (NewDAQueue 2000 :: nat DAQueue)) = Inr (ex_source 2000) \<and>
      l1height (ex_source 2000) = dq_l1height (NewDAQueue 2000 :: nat DAQueue) \<and>
      NextData ?high (ex_source 2000) =
        Some (Ok [], ex_source 2501,
          [Call_getFinalizedBlockNumber, Call_fetchRollupEventsInRange 2000 2500])"
    using ex_NextData_2000
    by (simp add: NewDAQueue_def ex_OpenDataSource_def l1height_ex_source ex_env_def ex_l1Client_def)
  have b: "getNextData ex_OpenDataSource ([?low, ?low, ?low] @ [?high]) (NewDAQueue 2000) =
     Some (Ok (), \<lparr>dq_l1height = 2000, dataSource = Some (ex_source 2501), dq_da = []\<rparr>,
       length [?low, ?low, ?low] + 1)"
    using exhausted_refill_recurses [where dq = "NewDAQueue 2000 :: nat DAQueue"
        and OpenDataSource = ex_OpenDataSource and exs = "[?low, ?low, ?low]"
        and src = "ex_source 2000" and env = ?high and src' = "ex_source 2501" and da = "[]"
        and cs = "[Call_getFinalizedBlockNumber, Call_fetchRollupEventsInRange 2000 2500]"
        and envs = "[]", THEN conjunct2, rule_format, OF pre2]
    by (simp add: NewDAQueue_def)
  from a b show ?thesis by blast
qed

section \<open>The attached messages\<close>

text \<open>
  The message loop of version 0 walks the window one slot at a time. When it returns
  messages, they are those at the indices of the window whose bit is clear, in order,
  and these are the indices it read; when it returns an error, the error names an
  index of the window whose bit is clear and that the store does not hold.
\<close>

lemma l1MessagesV0_window:
  "l1MessagesV0 env bm parent n (parent + of_nat k) acc = (Ok l1Txs, cs) \<Longrightarrow>
     map Some l1Txs =
       map Some acc @ map (\<lambda>i. ReadL1Message env (parent + of_nat i))
                       (filter (\<lambda>i. \<not> IsL1MessageSkipped (codec env) bm (of_nat i)) [k..<k + n]) \<and>
     cs = map (\<lambda>i. Call_ReadL1Message (parent + of_nat i))
            (filter (\<lambda>i. \<not> IsL1MessageSkipped (codec env) bm (of_nat i)) [k..<k + n])"
proof (induction n arbitrary: k acc l1Txs cs)
  case 0
  then show ?case by simp
next
  case (Suc n)
  have next_index: "parent + of_nat k + 1 = parent + of_nat (Suc k)"
    by simp
  have range: "[k..<k + Suc n] = k # [Suc k..<Suc k + n]"
    by (simp add: upt_conv_Cons)
  show ?case
  proof (cases "IsL1MessageSkipped (codec env) bm (of_nat k)")
    case True
    with Suc.prems have "l1MessagesV0 env bm parent n (parent + of_nat (Suc k)) acc = (Ok l1Txs, cs)"
      by (simp add: next_index del: of_nat_Suc)
    from Suc.IH [OF this] True show ?thesis
      unfolding range by simp
  next
    case False
    with Suc.prems obtain l1Tx where
      read: "ReadL1Message env (parent + of_nat k) = Some l1Tx" and
      rest: "after [Call_ReadL1Message (parent + of_nat k)]
               (l1MessagesV0 env bm parent n (parent + of_nat (Suc k)) (acc @ [l1Tx])) = (Ok l1Txs, cs)"
      by (auto simp add: next_index simp del: of_nat_Suc split: option.splits)
    from rest obtain cs' where
      rec: "l1MessagesV0 env bm parent n (parent + of_nat (Suc k)) (acc @ [l1Tx]) = (Ok l1Txs, cs')" and
      cs: "cs = Call_ReadL1Message (parent + of_nat k) # cs'"
      by (cases "l1MessagesV0 env bm parent n (parent + of_nat (Suc k)) (acc @ [l1Tx])")
        (auto simp: after_def)
    from Suc.IH [OF rec] False read cs show ?thesis
      unfolding range by simp
  qed
qed

lemma l1MessagesV0_missing:
  "l1MessagesV0 env bm parent n (parent + of_nat k) acc = (Err e, cs) \<Longrightarrow>
     \<exists>i. k \<le> i \<and> i < k + n \<and> \<not> IsL1MessageSkipped (codec env) bm (of_nat i) \<and>
         ReadL1Message env (parent + of_nat i) = None \<and>
         e = FailedToReadL1Message (parent + of_nat i)"
proof (induction n arbitrary: k acc cs)
  case 0
  then show ?case by simp
next
  case (Suc n)
  have next_index: "parent + of_nat k + 1 = parent + of_nat (Suc k)"
    by simp
  show ?case
  proof (cases "IsL1MessageSkipped (codec env) bm (of_nat k)")
    case True
    with Suc.prems have "l1MessagesV0 env bm parent n (parent + of_nat (Suc k)) acc = (Err e, cs)"
      by (simp add: next_index del: of_nat_Suc)
    from Suc.IH [OF this] obtain i where
      "Suc k \<le> i" "i < Suc k + n" "\<not> IsL1MessageSkipped (codec env) bm (of_nat i)"
      "ReadL1Message env (parent + of_nat i) = None" "e = FailedToReadL1Message (parent + of_nat i)"
      by blast
    then show ?thesis by (intro exI [of _ i]) simp
  next
    case False
    show ?thesis
    proof (cases "ReadL1Message env (parent + of_nat k)")
      case None
      with False Suc.prems have "e = FailedToReadL1Message (parent + of_nat k)"
        by (simp add: next_index del: of_nat_Suc)
      with None False show ?thesis by (intro exI [of _ k]) simp
    next
      case (Some l1Tx)
      with False Suc.prems have
        "after [Call_ReadL1Message (parent + of_nat k)]
           (l1MessagesV0 env bm parent n (parent + of_nat (Suc k)) (acc @ [l1Tx])) = (Err e, cs)"
        by (simp add: next_index del: of_nat_Suc)
      then obtain cs' where
        "l1MessagesV0 env bm parent n (parent + of_nat (Suc k)) (acc @ [l1Tx]) = (Err e, cs')"
        by (cases "l1MessagesV0 env bm parent n (parent + of_nat (Suc k)) (acc @ [l1Tx])")
          (auto simp: after_def)
      from Suc.IH [OF this] obtain i where
        "Suc k \<le> i" "i < Suc k + n" "\<not> IsL1MessageSkipped (codec env) bm (of_nat i)"
        "ReadL1Message env (parent + of_nat i) = None" "e = FailedToReadL1Message (parent + of_nat i)"
        by blast
      then show ?thesis by (intro exI [of _ i]) simp
    qed
  qed
qed

lemma decodeDAV0_attached_messages:
  assumes "decodeDAV0 env batchIndex vLog args = Some (Ok (Commit entry), cs)"
  shows "\<exists>chunks bm.
           codecv0_DecodeDAChunksRawTx (codec env) (Chunks args) = Inr chunks \<and>
           DecodeBitmap (codec env) (SkippedL1MessageBitmap args) (totalL1MessagePopped chunks) = Inr bm \<and>
           map Some (cb_L1Txs entry) =
             map (ReadL1Message env)
               (nonSkippedIndices (IsL1MessageSkipped (codec env) bm)
                  (cb_ParentTotalL1MessagePopped entry) (totalL1MessagePopped chunks))"
proof -
  from assms obtain chunks parent bm l1Txs cs' where
    chunks: "codecv0_DecodeDAChunksRawTx (codec env) (Chunks args) = Inr chunks" and
    parent: "getBatchTotalL1MessagePopped (ParentBatchHeader args) = Ok parent" and
    bm: "DecodeBitmap (codec env) (SkippedL1MessageBitmap args) (totalL1MessagePopped chunks) = Inr bm" and
    loop: "l1MessagesV0 env bm parent (totalL1MessagePopped chunks) parent [] = (Ok l1Txs, cs')" and
    entry: "Commit entry = NewCommitBatchDaV0 (Version args) batchIndex parent
              (SkippedL1MessageBitmap args) chunks l1Txs (BlockNumber vLog)"
    by (auto simp: decodeDAV0_def reconcile_def after_def
        split: sum.splits result.splits option.splits prod.splits)
  from l1MessagesV0_window [of env bm parent "totalL1MessagePopped chunks" 0 "[]" l1Txs cs'] loop
  have "map Some l1Txs =
      map (ReadL1Message env)
        (nonSkippedIndices (IsL1MessageSkipped (codec env) bm) parent (totalL1MessagePopped chunks))"
    by (simp add: nonSkippedIndices_def comp_def)
  moreover from entry have "cb_L1Txs entry = l1Txs" "cb_ParentTotalL1MessagePopped entry = parent"
    by (simp_all add: NewCommitBatchDaV0_def)
  ultimately show ?thesis using chunks bm by auto
qed

lemma ex_decodeDAV0:
  "decodeDAV0 (ex_env 1000 [9, 9]) 5 ex_commitLog (ex_args 0) =
     Some (Ok (Commit \<lparr>cb_DaType = CommitBatchV0, cb_Version = 0, cb_BatchIndex = 5,
                 cb_ParentTotalL1MessagePopped = 3, cb_SkippedL1MessageBitmap = ex_bitmap,
                 cb_Chunks = [\<lparr>Blocks = [\<lparr>NumTransactions = 0, NumL1Messages = 2\<rparr>], Transactions = []\<rparr>],
                 cb_L1Txs = [4], cb_L1BlockNumber = 10\<rparr>),
       [Call_DecodeDAChunksRawTx [[2]], Call_DecodeBitmap ex_bitmap 2, Call_ReadL1Message 4])"
  by (simp add: model_defs ex_defs l1MessagesV0_numeral)

lemma ex_decodeDAV1:
  "decodeDAV1 (ex_env 1000 [9, 9]) 5 ex_commitLog (ex_args 1) =
     Some (Ok (Commit \<lparr>cb_DaType = CommitBatchV1, cb_Version = 1, cb_BatchIndex = 5,
                 cb_ParentTotalL1MessagePopped = 3, cb_SkippedL1MessageBitmap = ex_bitmap,
                 cb_Chunks = [\<lparr>Blocks = [\<lparr>NumTransactions = 0, NumL1Messages = 2\<rparr>], Transactions = []\<rparr>],
                 cb_L1Txs = [4, 5], cb_L1BlockNumber = 10\<rparr>),
       [Call_DecodeDAChunksRawTx [[2]], Call_fetchTxBlobHash ex_commitLog,
        Call_GetBlobByVersionedHash 77, Call_BlobToCommitment [9, 9],
        Call_DecodeTxsFromBlob [9, 9], Call_DecodeBitmap ex_bitmap 2,
        Call_ReadL1Message 4, Call_ReadL1Message 5])"
  by (simp add: model_defs ex_defs l1MessagesV1_numeral skipSkipped.simps)

lemma ex_decodeDAV2:
  "decodeDAV2 (ex_env 1000 [9, 9]) 5 ex_commitLog (ex_args 2) =
     Some (Ok (Commit \<lparr>cb_DaType = CommitBatchV2, cb_Version = 2, cb_BatchIndex = 5,
                 cb_ParentTotalL1MessagePopped = 3, cb_SkippedL1MessageBitmap = ex_bitmap,
                 cb_Chunks = [\<lparr>Blocks = [\<lparr>NumTransactions = 0, NumL1Messages = 2\<rparr>], Transactions = []\<rparr>],
                 cb_L1Txs = [4, 5], cb_L1BlockNumber = 10\<rparr>),
       [Call_DecodeDAChunksRawTx [[2]], Call_fetchTxBlobHash ex_commitLog,
        Call_GetBlobByVersionedHash 77, Call_BlobToCommitment [9, 9],
        Call_DecodeTxsFromBlob [9, 9], Call_DecodeBitmap ex_bitmap 2,
        Call_ReadL1Message 4, Call_ReadL1Message 5])"
  by (simp add: model_defs ex_defs l1MessagesV1_numeral skipSkipped.simps)

lemma ex_window:
  "DecodeBitmap (codec (ex_env 1000 [9, 9])) ex_bitmap 2 = Inr [1] \<and>
   nonSkippedIndices (IsL1MessageSkipped (codec (ex_env 1000 [9, 9])) [1]) 3 2 = [4] \<and>
   map (ReadL1Message (ex_env 1000 [9, 9])) [4] = [Some 4]"
  by (simp add: ex_defs nonSkippedIndices_def upt_conv_Cons)

text \<open>
  Claim C1 asks the same of versions 1 and 2; their loop does something else. Input:
  the parent header's field is 3, the chunks have two slots, bit 0 of the bitmap is set
  and bit 1 is clear, the store holds the messages 0 to 9. The window is \<open>[3, 5)\<close> and
  its one index with a clear bit is 4. Version 0 attaches message 4. Versions 1 and 2
  attach the messages 4 and 5: each of the two iterations runs past the set bits and
  then reads a message, so the walk leaves the window by as many indices as bits are
  set.
\<close>

theorem blob_decoders_read_past_the_window:
  "decodeDAV1 (ex_env 1000 [9, 9]) 5 ex_commitLog (ex_args 1) =
     Some (Ok (Commit \<lparr>cb_DaType = CommitBatchV1, cb_Version = 1, cb_BatchIndex = 5,
                 cb_ParentTotalL1MessagePopped = 3, cb_SkippedL1MessageBitmap = ex_bitmap,
                 cb_Chunks = [\<lparr>Blocks = [\<lparr>NumTransactions = 0, NumL1Messages = 2\<rparr>], Transactions = []\<rparr>],
                 cb_L1Txs = [4, 5], cb_L1BlockNumber = 10\<rparr>),
       [Call_DecodeDAChunksRawTx [[2]], Call_fetchTxBlobHash ex_commitLog,
        Call_GetBlobByVersionedHash 77, Call_BlobToCommitment [9, 9],
        Call_DecodeTxsFromBlob [9, 9], Call_DecodeBitmap ex_bitmap 2,
        Call_ReadL1Message 4, Call_ReadL1Message 5]) \<and>
   decodeDAV2 (ex_env 1000 [9, 9]) 5 ex_commitLog (ex_args 2) =
     Some (Ok (Commit \<lparr>cb_DaType = CommitBatchV2, cb_Version = 2, cb_BatchIndex = 5,
                 cb_ParentTotalL1MessagePopped = 3, cb_SkippedL1MessageBitmap = ex_bitmap,
                 cb_Chunks = [\<lparr>Blocks = [\<lparr>NumTransactions = 0, NumL1Messages = 2\<rparr>], Transactions = []\<rparr>],
                 cb_L1Txs = [4, 5], cb_L1BlockNumber = 10\<rparr>),
       [Call_DecodeDAChunksRawTx [[2]], Call_fetchTxBlobHash ex_commitLog,
        Call_GetBlobByVersionedHash 77, Call_BlobToCommitment [9, 9],
        Call_DecodeTxsFromBlob [9, 9], Call_DecodeBitmap ex_bitmap 2,
        Call_ReadL1Message 4, Call_ReadL1Message 5]) \<and>
   decodeDAV0 (ex_env 1000 [9, 9]) 5 ex_commitLog (ex_args 0) =
     Some (Ok (Commit \<lparr>cb_DaType = CommitBatchV0, cb_Version = 0, cb_BatchIndex = 5,
                 cb_ParentTotalL1MessagePopped = 3, cb_SkippedL1MessageBitmap = ex_bitmap,
                 cb_Chunks = [\<lparr>Blocks = [\<lparr>NumTransactions = 0, NumL1Messages = 2\<rparr>], Transactions = []\<rparr>],
                 cb_L1Txs = [4], cb_L1BlockNumber = 10\<rparr>),
       [Call_DecodeDAChunksRawTx [[2]], Call_DecodeBitmap ex_bitmap 2, Call_ReadL1Message 4]) \<and>
   DecodeBitmap (codec (ex_env 1000 [9, 9])) ex_bitmap 2 = Inr [1] \<and>
   map (ReadL1Message (ex_env 1000 [9, 9]))
     (nonSkippedIndices (IsL1MessageSkipped (codec (ex_env 1000 [9, 9])) [1]) 3 2) = [Some 4]"
  using ex_decodeDAV0 ex_decodeDAV1 ex_decodeDAV2 ex_window by simp

section \<open>The block number of revert and finalize entries\<close>

text \<open>
  Claim C9 has every revert and finalize entry record the block number of its log.
  \<^verbatim>\<open>NewRevertBatchDA\<close> and \<^verbatim>\<open>NewFinalizeBatchDA\<close> are given the batch index only, so
  \<^verbatim>\<open>GetL1BlockNumber\<close> is 0 for every entry they make: for the revert log at height
  20 and the finalize log at height 30 the dispatcher's entries answer 0.
\<close>

theorem revert_and_finalize_leave_the_block_number_zero:
  "GetL1BlockNumber (NewRevertBatchDA batchIndex) = 0 \<and>
   GetL1BlockNumber (NewFinalizeBatchDA batchIndex) = 0 \<and>
   logToDAEntry (ex_env 1000 [9, 9]) (ex_source 0) ex_revertLog =
     Some (Ok (Revert \<lparr>rv_DaType = RevertBatch, rv_BatchIndex = 5, rv_L1BlockNumber = 0\<rparr>),
       [Call_UnpackLog ''RevertBatch'' ex_revertLog]) \<and>
   BlockNumber ex_revertLog = 20 \<and>
   logToDAEntry (ex_env 1000 [9, 9]) (ex_source 0) ex_finalizeLog =
     Some (Ok (Finalize \<lparr>fn_DaType = FinalizeBatch, fn_BatchIndex = 4, fn_L1BlockNumber = 0\<rparr>),
       [Call_UnpackLog ''FinalizeBatch'' ex_finalizeLog]) \<and>
   BlockNumber ex_finalizeLog = 30"
  by (simp add: run_defs ex_defs)

section \<open>The parent header's field\<close>

lemma or_push_bit_8:
  fixes hi :: uint64 and lo :: uint8
  shows "push_bit 8 hi OR ucast lo = hi * 256 + ucast lo"
proof -
  have "push_bit 8 hi AND (ucast lo :: uint64) = 0"
    by (rule bit_word_eqI) (auto simp: bit_simps dest: bit_imp_le_length)
  then have "push_bit 8 hi OR ucast lo = push_bit 8 hi + ucast lo"
    by (simp add: disjunctive_add_eq_or)
  then show ?thesis by (simp add: push_bit_eq_mult)
qed

text \<open>The eight bytes are the digits of the value to the base 256, the first the highest.\<close>

lemma BigEndian_Uint64_digits:
  "BigEndian_Uint64 [b0, b1, b2, b3, b4, b5, b6, b7] =
     foldl (\<lambda>a b. a * 256 + ucast b) 0 [b0, b1, b2, b3, b4, b5, b6, b7]"
proof -
  have "BigEndian_Uint64 [b0, b1, b2, b3, b4, b5, b6, b7] =
      foldl (\<lambda>a b. push_bit 8 a OR ucast b) 0 [b0, b1, b2, b3, b4, b5, b6, b7]"
    by (simp add: BigEndian_Uint64_def push_bit_or ac_simps)
  then show ?thesis by (simp only: or_push_bit_8 foldl.simps)
qed

lemma long_header_field:
  "25 \<le> length data \<Longrightarrow>
     getBatchTotalL1MessagePopped data = Ok (BigEndian_Uint64 (take 8 (drop 17 data)))"
  by (simp add: getBatchTotalL1MessagePopped_def)

lemma short_header_panics:
  "length data < 25 \<Longrightarrow>
     getBatchTotalL1MessagePopped data = Panic (SliceBoundsOutOfRange 25 (length data))"
  by (simp add: getBatchTotalL1MessagePopped_def)

text \<open>
  Claim C10 has a parent header of fewer than 25 bytes end in a decoding error.
  \<^verbatim>\<open>getBatchTotalL1MessagePopped\<close> slices \<^verbatim>\<open>data[17:25]\<close> without a check of the
  length, so a header of 24 bytes, and the empty header, is a run-time panic, in every
  decoder. A header of 25 bytes is read as the claim says.
\<close>

theorem short_parent_header_panics:
  "getBatchTotalL1MessagePopped ex_shortHeader = Panic (SliceBoundsOutOfRange 25 24) \<and>
   getBatchTotalL1MessagePopped [] = Panic (SliceBoundsOutOfRange 25 0) \<and>
   decodeDAV0 (ex_env 1000 [9, 9]) 5 ex_commitLog ((ex_args 0)\<lparr>ParentBatchHeader := ex_shortHeader\<rparr>) =
     Some (Panic (SliceBoundsOutOfRange 25 24), [Call_DecodeDAChunksRawTx [[2]]]) \<and>
   decodeDAV1 (ex_env 1000 [9, 9]) 5 ex_commitLog ((ex_args 1)\<lparr>ParentBatchHeader := ex_shortHeader\<rparr>) =
     Some (Panic (SliceBoundsOutOfRange 25 24),
       [Call_DecodeDAChunksRawTx [[2]], Call_fetchTxBlobHash ex_commitLog,
        Call_GetBlobByVersionedHash 77, Call_BlobToCommitment [9, 9],
        Call_DecodeTxsFromBlob [9, 9]]) \<and>
   getBatchTotalL1MessagePopped ex_header = Ok 3"
  by (simp add: model_defs ex_defs ex_shortHeader_def)
end
